theory Spec2Isabelle
  imports Complex_Main "HOL-Library.Sublist"
begin

section \<open>Configuration / Constants\<close>

text \<open>
  The module-level constants of \<^verbatim>\<open>main.py\<close>. Python's \<^verbatim>\<open>int\<close> is \<^typ>\<open>int\<close>.
  Python's \<^verbatim>\<open>float\<close> is modelled by \<^typ>\<open>real\<close>: IEEE rounding is not modelled, and
  the properties below only depend on comparisons and on the truncation \<^verbatim>\<open>int(...)\<close>.
\<close>

definition SCREEN_WIDTH :: int where "SCREEN_WIDTH = 800"
definition SCREEN_HEIGHT :: int where "SCREEN_HEIGHT = 600"
definition FPS :: int where "FPS = 60"

definition GRAVITY :: real where "GRAVITY = 0.8"
definition JUMP_POWER :: real where "JUMP_POWER = - 12.0"
definition MAX_JUMPS :: int where "MAX_JUMPS = 2"

definition PLATFORM_WIDTH :: int where "PLATFORM_WIDTH = 150"
definition PLATFORM_HEIGHT :: int where "PLATFORM_HEIGHT = 10"
definition PLATFORM_MIN_Y :: int where "PLATFORM_MIN_Y = 250"
definition PLATFORM_MAX_Y :: int where "PLATFORM_MAX_Y = 400"
definition PLATFORM_Y_DELTA :: int where "PLATFORM_Y_DELTA = 50"
definition HORIZONTAL_GAP :: int where "HORIZONTAL_GAP = 180"
definition SCROLL_SPEED :: real where "SCROLL_SPEED = 5.0"

definition OBSTACLE_CHANCE :: real where "OBSTACLE_CHANCE = 0.3"
definition COIN_CHANCE :: real where "COIN_CHANCE = 0.5"
definition OBSTACLE_SIZE :: "int \<times> int" where "OBSTACLE_SIZE = (30, 30)"
definition COIN_SIZE :: "int \<times> int" where "COIN_SIZE = (20, 20)"
definition COIN_OFFSET_ABOVE_ROOF :: int where "COIN_OFFSET_ABOVE_ROOF = 30"
definition EDGE_PADDING :: int where "EDGE_PADDING = 20"

section \<open>Rectangles\<close>

text \<open>
  \<^verbatim>\<open>pygame.Rect(x, y, width, height)\<close> with the attributes the game reads and writes:
  \<^verbatim>\<open>top\<close>, \<^verbatim>\<open>bottom\<close>, \<^verbatim>\<open>right\<close>, the setter of \<^verbatim>\<open>bottom\<close> (which moves the rectangle,
  keeping its size), and \<^verbatim>\<open>colliderect\<close>. A rectangle of width or height 0 collides with
  nothing; otherwise two rectangles collide when their open interiors meet, edges only
  touching do not count.
\<close>

datatype rect = Rect (rect_x: int) (rect_y: int) (rect_width: int) (rect_height: int)

definition rect_top :: "rect \<Rightarrow> int" where
  "rect_top r = rect_y r"

definition rect_bottom :: "rect \<Rightarrow> int" where
  "rect_bottom r = rect_y r + rect_height r"

definition rect_right :: "rect \<Rightarrow> int" where
  "rect_right r = rect_x r + rect_width r"

definition set_x :: "rect \<Rightarrow> int \<Rightarrow> rect" where
  "set_x r v = Rect v (rect_y r) (rect_width r) (rect_height r)"

definition set_y :: "rect \<Rightarrow> int \<Rightarrow> rect" where
  "set_y r v = Rect (rect_x r) v (rect_width r) (rect_height r)"

definition set_bottom :: "rect \<Rightarrow> int \<Rightarrow> rect" where
  "set_bottom r v = Rect (rect_x r) (v - rect_height r) (rect_width r) (rect_height r)"

definition colliderect :: "rect \<Rightarrow> rect \<Rightarrow> bool" where
  "colliderect a b =
     (if rect_width a = 0 \<or> rect_height a = 0 \<or> rect_width b = 0 \<or> rect_height b = 0
      then False
      else min (rect_x a) (rect_x a + rect_width a) < max (rect_x b) (rect_x b + rect_width b)
         \<and> min (rect_y a) (rect_y a + rect_height a) < max (rect_y b) (rect_y b + rect_height b)
         \<and> max (rect_x a) (rect_x a + rect_width a) > min (rect_x b) (rect_x b + rect_width b)
         \<and> max (rect_y a) (rect_y a + rect_height a) > min (rect_y b) (rect_y b + rect_height b))"

section \<open>Data classes\<close>

record player =
  rect :: rect
  jump_power :: real
  gravity :: real
  y_velocity :: real
  is_grounded :: bool
  jump_count :: int
  max_jumps :: int

text \<open>The dataclass constructor \<^verbatim>\<open>Player(rect=r)\<close> with its default field values.\<close>

definition Player :: "rect \<Rightarrow> player" where
  "Player r = \<lparr> rect = r, jump_power = JUMP_POWER, gravity = GRAVITY, y_velocity = 0,
                is_grounded = False, jump_count = 0, max_jumps = MAX_JUMPS \<rparr>"

section \<open>The random source\<close>

text \<open>
  The module \<^verbatim>\<open>random\<close> is a state that is read and advanced by each call. The state is
  an infinite sequence of raw draws and a position in it. \<^verbatim>\<open>random.randint(a, b)\<close>
  raises \<^verbatim>\<open>ValueError\<close> on an empty range, before drawing anything, and otherwise
  returns a value of \<open>[a, b]\<close>, every one of which some draw produces.
  \<^verbatim>\<open>random.random()\<close> returns a multiple of \<open>2\<^sup>-\<^sup>5\<^sup>3\<close> in \<open>[0, 1)\<close>.
\<close>

datatype error = ValueError | TypeError | OSError

record rng =
  rng_draws :: "nat \<Rightarrow> nat"
  rng_pos :: nat

definition next_draw :: "rng \<Rightarrow> nat \<times> rng" where
  "next_draw g = (rng_draws g (rng_pos g), g\<lparr>rng_pos := Suc (rng_pos g)\<rparr>)"

definition randint :: "int \<Rightarrow> int \<Rightarrow> rng \<Rightarrow> error + (int \<times> rng)" where
  "randint a b g =
     (if a > b then Inl ValueError
      else (case next_draw g of (n, g') \<Rightarrow> Inr (a + int (n mod nat (b - a + 1)), g')))"

definition random :: "rng \<Rightarrow> real \<times> rng" where
  "random g = (case next_draw g of (n, g') \<Rightarrow> (real (n mod 2 ^ 53) / 2 ^ 53, g'))"

section \<open>Game functions\<close>

subsection \<open>spawn_platform\<close>

text \<open>
  The state that \<^verbatim>\<open>spawn_platform\<close> and \<^verbatim>\<open>reset_game\<close> mutate in place: the three lists
  they are passed and the random source. Every rectangle appended is a fresh object and no
  rectangle is in two lists, so lists of values model them. The functions are written over
  any extension of the record, so that they can be run on the state of the main loop and
  cannot touch its other fields.
\<close>

record world =
  platforms :: "rect list"
  obstacles :: "rect list"
  coins :: "rect list"
  random_state :: rng

text \<open>
  In this subsection \<^verbatim>\<open>pygame.Rect\<close> accepts the coordinates it is given and \<^verbatim>\<open>print\<close>
  does not raise, as in every run of the game on a working console; the failures of these
  two calls are in the next subsection.

  The two optional spawns of the \<^verbatim>\<open>try\<close> body. Each returns the state as it is when the
  block ends or raises (an exception does not undo an \<^verbatim>\<open>append\<close> or a draw), and the
  exception raised, if any.
\<close>

definition spawn_obstacle :: "'a world_scheme \<Rightarrow> int \<Rightarrow> int \<Rightarrow> error option \<times> 'a world_scheme" where
  "spawn_obstacle w x y =
     (case random (random_state w) of (r, g1) \<Rightarrow>
        if r < OBSTACLE_CHANCE then
          (case randint EDGE_PADDING (PLATFORM_WIDTH - fst OBSTACLE_SIZE - EDGE_PADDING) g1 of
             Inl e \<Rightarrow> (Some e, w\<lparr>random_state := g1\<rparr>)
           | Inr (d, g2) \<Rightarrow>
               (let obstacle_x = x + d; obstacle_y = y - snd OBSTACLE_SIZE
                in (None, w\<lparr>obstacles := obstacles w @
                               [Rect obstacle_x obstacle_y (fst OBSTACLE_SIZE) (snd OBSTACLE_SIZE)],
                             random_state := g2\<rparr>)))
        else (None, w\<lparr>random_state := g1\<rparr>))"

definition spawn_coin :: "'a world_scheme \<Rightarrow> int \<Rightarrow> int \<Rightarrow> error option \<times> 'a world_scheme" where
  "spawn_coin w x y =
     (case random (random_state w) of (r, g1) \<Rightarrow>
        if r < COIN_CHANCE then
          (case randint EDGE_PADDING (PLATFORM_WIDTH - fst COIN_SIZE - EDGE_PADDING) g1 of
             Inl e \<Rightarrow> (Some e, w\<lparr>random_state := g1\<rparr>)
           | Inr (d, g2) \<Rightarrow>
               (let coin_x = x + d; coin_y = y - snd COIN_SIZE - COIN_OFFSET_ABOVE_ROOF
                in (None, w\<lparr>coins := coins w @ [Rect coin_x coin_y (fst COIN_SIZE) (snd COIN_SIZE)],
                             random_state := g2\<rparr>)))
        else (None, w\<lparr>random_state := g1\<rparr>))"

text \<open>
  The body of the \<^verbatim>\<open>try\<close>: either the returned pair \<open>(next_x, y)\<close> or the exception,
  together with the state at that point.
\<close>

definition spawn_body ::
  "'a world_scheme \<Rightarrow> int \<Rightarrow> int \<Rightarrow> (error + int \<times> int) \<times> 'a world_scheme" where
  "spawn_body w last_platform_y x =
     (case randint (max PLATFORM_MIN_Y (last_platform_y - PLATFORM_Y_DELTA))
                   (min PLATFORM_MAX_Y (last_platform_y + PLATFORM_Y_DELTA)) (random_state w) of
        Inl e \<Rightarrow> (Inl e, w)
      | Inr (y, g1) \<Rightarrow>
          (let w1 = w\<lparr>platforms := platforms w @ [Rect x y PLATFORM_WIDTH PLATFORM_HEIGHT],
                      random_state := g1\<rparr>
           in if x > SCREEN_WIDTH div 4 then
                (case spawn_obstacle w1 x y of
                   (Some e, w2) \<Rightarrow> (Inl e, w2)
                 | (None, w2) \<Rightarrow>
                     (case spawn_coin w2 x y of
                        (Some e, w3) \<Rightarrow> (Inl e, w3)
                      | (None, w3) \<Rightarrow> (Inr (x + PLATFORM_WIDTH + HORIZONTAL_GAP, y), w3)))
              else (Inr (x + PLATFORM_WIDTH + HORIZONTAL_GAP, y), w1)))"

text \<open>
  \<^verbatim>\<open>spawn_platform\<close>: the \<^verbatim>\<open>try\<close> body, and the \<^verbatim>\<open>except Exception\<close> branch that returns
  the advanced x with the y it was given. The result is
  \<open>((next_spawn_x, new_last_platform_y), state)\<close>.
\<close>

definition spawn_platform ::
  "'a world_scheme \<Rightarrow> int \<Rightarrow> int \<Rightarrow> (int \<times> int) \<times> 'a world_scheme" where
  "spawn_platform w last_platform_y x =
     (case spawn_body w last_platform_y x of
        (Inr r, w') \<Rightarrow> (r, w')
      | (Inl e, w') \<Rightarrow> ((x + PLATFORM_WIDTH + HORIZONTAL_GAP, last_platform_y), w'))"

subsection \<open>spawn_platform with the failures of its library calls\<close>

text \<open>
  Besides \<^verbatim>\<open>randint\<close>, two calls of the \<^verbatim>\<open>try\<close> body can raise. \<^verbatim>\<open>pygame.Rect(...)\<close>
  raises \<^verbatim>\<open>TypeError\<close> on coordinates it does not accept; pygame is not part of the
  repository, so which coordinates it accepts, and the rectangle it makes of them, is a
  parameter \<open>new_rect\<close>. \<^verbatim>\<open>log_info\<close> and \<^verbatim>\<open>log_error\<close> call \<^verbatim>\<open>print\<close>, which raises when
  the console cannot take the line; the console is a state that says, for each call of
  \<^verbatim>\<open>print\<close> in turn, whether it raises. What is printed is not modelled.

  The definitions above are these with a \<open>new_rect\<close> that accepts every coordinate and a
  console on which no call raises (lemma \<open>spawn_platform_io_quiet\<close> below).
\<close>

record console =
  print_raises :: "nat \<Rightarrow> bool"
  print_count :: nat

record io_world = world +
  console :: console

definition print_line :: "'a io_world_scheme \<Rightarrow> error option \<times> 'a io_world_scheme" where
  "print_line w =
     (if print_raises (console w) (print_count (console w)) then Some OSError else None,
      w\<lparr>console := (console w)\<lparr>print_count := Suc (print_count (console w))\<rparr>\<rparr>)"

definition log_info :: "'a io_world_scheme \<Rightarrow> error option \<times> 'a io_world_scheme" where
  "log_info w = print_line w"

definition log_error :: "'a io_world_scheme \<Rightarrow> error option \<times> 'a io_world_scheme" where
  "log_error w = print_line w"

definition spawn_obstacle_io ::
  "(int \<Rightarrow> int \<Rightarrow> int \<Rightarrow> int \<Rightarrow> error + rect) \<Rightarrow> 'a io_world_scheme \<Rightarrow> int \<Rightarrow> int
     \<Rightarrow> error option \<times> 'a io_world_scheme" where
  "spawn_obstacle_io new_rect w x y =
     (case random (random_state w) of (r, g1) \<Rightarrow>
        if r < OBSTACLE_CHANCE then
          (case randint EDGE_PADDING (PLATFORM_WIDTH - fst OBSTACLE_SIZE - EDGE_PADDING) g1 of
             Inl e \<Rightarrow> (Some e, w\<lparr>random_state := g1\<rparr>)
           | Inr (d, g2) \<Rightarrow>
               (let obstacle_x = x + d; obstacle_y = y - snd OBSTACLE_SIZE
                in case new_rect obstacle_x obstacle_y (fst OBSTACLE_SIZE) (snd OBSTACLE_SIZE) of
                     Inl e \<Rightarrow> (Some e, w\<lparr>random_state := g2\<rparr>)
                   | Inr obstacle \<Rightarrow>
                       log_info (w\<lparr>obstacles := obstacles w @ [obstacle],
                                   random_state := g2\<rparr>)))
        else (None, w\<lparr>random_state := g1\<rparr>))"

definition spawn_coin_io ::
  "(int \<Rightarrow> int \<Rightarrow> int \<Rightarrow> int \<Rightarrow> error + rect) \<Rightarrow> 'a io_world_scheme \<Rightarrow> int \<Rightarrow> int
     \<Rightarrow> error option \<times> 'a io_world_scheme" where
  "spawn_coin_io new_rect w x y =
     (case random (random_state w) of (r, g1) \<Rightarrow>
        if r < COIN_CHANCE then
          (case randint EDGE_PADDING (PLATFORM_WIDTH - fst COIN_SIZE - EDGE_PADDING) g1 of
             Inl e \<Rightarrow> (Some e, w\<lparr>random_state := g1\<rparr>)
           | Inr (d, g2) \<Rightarrow>
               (let coin_x = x + d; coin_y = y - snd COIN_SIZE - COIN_OFFSET_ABOVE_ROOF
                in case new_rect coin_x coin_y (fst COIN_SIZE) (snd COIN_SIZE) of
                     Inl e \<Rightarrow> (Some e, w\<lparr>random_state := g2\<rparr>)
                   | Inr coin \<Rightarrow>
                       log_info (w\<lparr>coins := coins w @ [coin], random_state := g2\<rparr>)))
        else (None, w\<lparr>random_state := g1\<rparr>))"

text \<open>
  The body of the \<^verbatim>\<open>try\<close>, statement by statement: the returned pair or the exception,
  and the state as it is when the body returns or raises.
\<close>

definition spawn_body_io ::
  "(int \<Rightarrow> int \<Rightarrow> int \<Rightarrow> int \<Rightarrow> error + rect) \<Rightarrow> 'a io_world_scheme \<Rightarrow> int \<Rightarrow> int
     \<Rightarrow> (error + int \<times> int) \<times> 'a io_world_scheme" where
  "spawn_body_io new_rect w last_platform_y x =
     (case randint (max PLATFORM_MIN_Y (last_platform_y - PLATFORM_Y_DELTA))
                   (min PLATFORM_MAX_Y (last_platform_y + PLATFORM_Y_DELTA)) (random_state w) of
        Inl e \<Rightarrow> (Inl e, w)
      | Inr (y, g1) \<Rightarrow>
          (case new_rect x y PLATFORM_WIDTH PLATFORM_HEIGHT of
             Inl e \<Rightarrow> (Inl e, w\<lparr>random_state := g1\<rparr>)
           | Inr platform \<Rightarrow>
               (case log_info (w\<lparr>platforms := platforms w @ [platform],
                                 random_state := g1\<rparr>) of
                  (Some e, w1) \<Rightarrow> (Inl e, w1)
                | (None, w1) \<Rightarrow>
                    if x > SCREEN_WIDTH div 4 then
                      (case spawn_obstacle_io new_rect w1 x y of
                         (Some e, w2) \<Rightarrow> (Inl e, w2)
                       | (None, w2) \<Rightarrow>
                           (case spawn_coin_io new_rect w2 x y of
                              (Some e, w3) \<Rightarrow> (Inl e, w3)
                            | (None, w3) \<Rightarrow>
                                (Inr (x + PLATFORM_WIDTH + HORIZONTAL_GAP, y), w3)))
                    else (Inr (x + PLATFORM_WIDTH + HORIZONTAL_GAP, y), w1))))"

text \<open>
  The function: the \<^verbatim>\<open>try\<close> body and the \<^verbatim>\<open>except Exception\<close> branch, which calls
  \<^verbatim>\<open>log_error\<close> and then returns. An exception raised by \<^verbatim>\<open>log_error\<close> is raised in
  the handler, so no handler of the function catches it: the function raises it.
\<close>

definition spawn_platform_io ::
  "(int \<Rightarrow> int \<Rightarrow> int \<Rightarrow> int \<Rightarrow> error + rect) \<Rightarrow> 'a io_world_scheme \<Rightarrow> int \<Rightarrow> int
     \<Rightarrow> (error + int \<times> int) \<times> 'a io_world_scheme" where
  "spawn_platform_io new_rect w last_platform_y x =
     (case spawn_body_io new_rect w last_platform_y x of
        (Inr r, w1) \<Rightarrow> (Inr r, w1)
      | (Inl e, w1) \<Rightarrow>
          (case log_error w1 of
             (Some e', w2) \<Rightarrow> (Inl e', w2)
           | (None, w2) \<Rightarrow>
               (Inr (x + PLATFORM_WIDTH + HORIZONTAL_GAP, last_platform_y), w2)))"

subsection \<open>reset_game\<close>

text \<open>\<^verbatim>\<open>int(f)\<close> on a float truncates towards zero.\<close>

definition py_int :: "real \<Rightarrow> int" where
  "py_int r = (if r < 0 then \<lceil>r\<rceil> else \<lfloor>r\<rfloor>)"

text \<open>
  \<^verbatim>\<open>reset_game\<close> mutates the player and the lists and returns
  \<open>(last_platform_x, last_platform_y, score, started)\<close>; here it returns that tuple, the
  player and the state.
\<close>

definition reset_game ::
  "player \<Rightarrow> 'a world_scheme \<Rightarrow> (int \<times> int \<times> int \<times> bool) \<times> player \<times> 'a world_scheme" where
  "reset_game p w =
     (let w0 = w\<lparr>platforms := [], obstacles := [], coins := []\<rparr>;
          score = 0;
          started = False;
          initial_platform_x = SCREEN_WIDTH div 2 - PLATFORM_WIDTH div 2;
          initial_platform_y = py_int (real_of_int SCREEN_HEIGHT * 0.7);
          w1 = w0\<lparr>platforms := platforms w0 @
                   [Rect initial_platform_x initial_platform_y PLATFORM_WIDTH PLATFORM_HEIGHT]\<rparr>;
          p1 = p\<lparr>rect := set_x (rect p)
                   (initial_platform_x + PLATFORM_WIDTH div 2 - rect_width (rect p) div 2)\<rparr>;
          p2 = p1\<lparr>rect := set_y (rect p1) (initial_platform_y - rect_height (rect p1))\<rparr>;
          p3 = p2\<lparr>y_velocity := 0, is_grounded := True, jump_count := 0\<rparr>;
          next_x = initial_platform_x + PLATFORM_WIDTH + HORIZONTAL_GAP
      in case spawn_platform w1 initial_platform_y next_x of
           ((last_platform_x, last_platform_y), w2) \<Rightarrow>
             ((last_platform_x, last_platform_y, score, started), p3, w2))"

section \<open>Main game\<close>

text \<open>
  The local variables of \<^verbatim>\<open>main\<close> that the loop reads and writes, on top of the lists and
  the random source. Drawing reads the state and changes nothing of it, and is left out.
\<close>

record game = world +
  player :: player
  last_platform_x :: int
  last_platform_y :: int
  score :: int
  game_started :: bool
  running :: bool

text \<open>The assignment of the tuple that \<^verbatim>\<open>reset_game\<close> returns, as \<^verbatim>\<open>main\<close> does it.\<close>

definition do_reset :: "game \<Rightarrow> game" where
  "do_reset g =
     (case reset_game (player g) g of
        ((lx, ly, sc, st), p, g') \<Rightarrow>
          g'\<lparr>player := p, last_platform_x := lx, last_platform_y := ly,
             score := sc, game_started := st\<rparr>)"

text \<open>The state when the loop is entered, for a given random source.\<close>

definition init_game :: "rng \<Rightarrow> game" where
  "init_game g0 =
     do_reset \<lparr> platforms = [], obstacles = [], coins = [], random_state = g0,
                player = Player (Rect (SCREEN_WIDTH div 2) 0 30 50),
                last_platform_x = 0, last_platform_y = 0, score = 0,
                game_started = False, running = True \<rparr>"

subsection \<open>Events\<close>

datatype event = QUIT | KEYDOWN_SPACE | OTHER_EVENT

fun handle_event :: "event \<Rightarrow> game \<Rightarrow> game" where
  "handle_event QUIT g = g\<lparr>running := False\<rparr>"
| "handle_event KEYDOWN_SPACE g =
     (if \<not> game_started g then g\<lparr>game_started := True\<rparr>
      else if jump_count (player g) < max_jumps (player g) then
        g\<lparr>player := (player g)\<lparr>y_velocity := jump_power (player g),
                               jump_count := jump_count (player g) + 1,
                               is_grounded := False\<rparr>\<rparr>
      else g)"
| "handle_event OTHER_EVENT g = g"

definition handle_events :: "event list \<Rightarrow> game \<Rightarrow> game" where
  "handle_events evs g = fold handle_event evs g"

subsection \<open>Gravity, movement and landing\<close>

text \<open>The \<^verbatim>\<open>for platform in platforms\<close> loop of the landing check, with its \<^verbatim>\<open>break\<close>.\<close>

fun landing_check :: "player \<Rightarrow> int \<Rightarrow> rect list \<Rightarrow> player" where
  "landing_check p old_bottom [] = p"
| "landing_check p old_bottom (platform # rest) =
     (if colliderect (rect p) platform \<and> old_bottom \<le> rect_top platform then
        p\<lparr>rect := set_bottom (rect p) (rect_top platform),
          y_velocity := 0, is_grounded := True, jump_count := 0\<rparr>
      else landing_check p old_bottom rest)"

text \<open>
  Gravity and movement up to the landing check: the player moved, the displacement
  \<open>dy\<close> and the bottom edge before the move.
\<close>

definition integrate :: "real \<Rightarrow> player \<Rightarrow> player \<times> real \<times> int" where
  "integrate dt p =
     (let p1 = p\<lparr>y_velocity := y_velocity p + gravity p * dt * real_of_int FPS\<rparr>;
          dy = y_velocity p1 * dt * real_of_int FPS;
          old_bottom = rect_bottom (rect p1);
          p2 = p1\<lparr>rect := set_y (rect p1) (rect_y (rect p1) + py_int dy)\<rparr>;
          p3 = p2\<lparr>is_grounded := False\<rparr>
      in (p3, dy, old_bottom))"

definition physics :: "real \<Rightarrow> player \<Rightarrow> rect list \<Rightarrow> player" where
  "physics dt p plats =
     (case integrate dt p of (p3, dy, old_bottom) \<Rightarrow>
        if dy > 0 then landing_check p3 old_bottom plats else p3)"

subsection \<open>Scrolling, spawning, pruning\<close>

definition shift_left :: "int \<Rightarrow> rect list \<Rightarrow> rect list" where
  "shift_left d obj_list = map (\<lambda>item. set_x item (rect_x item - d)) obj_list"

definition scroll_world :: "real \<Rightarrow> game \<Rightarrow> game" where
  "scroll_world dt g =
     (let scroll = SCROLL_SPEED * dt * real_of_int FPS
      in g\<lparr>platforms := shift_left (py_int scroll) (platforms g),
           obstacles := shift_left (py_int scroll) (obstacles g),
           coins := shift_left (py_int scroll) (coins g),
           last_platform_x := last_platform_x g - py_int scroll\<rparr>)"

definition spawn_if_needed :: "game \<Rightarrow> game" where
  "spawn_if_needed g =
     (if last_platform_x g < SCREEN_WIDTH then
        (case spawn_platform g (last_platform_y g) (last_platform_x g) of
           ((lx, ly), g') \<Rightarrow> g'\<lparr>last_platform_x := lx, last_platform_y := ly\<rparr>)
      else g)"

text \<open>\<^verbatim>\<open>obj_list[:] = [item for item in obj_list if item.right > 0]\<close>\<close>

definition prune :: "rect list \<Rightarrow> rect list" where
  "prune obj_list = [item \<leftarrow> obj_list. rect_right item > 0]"

definition remove_offscreen :: "game \<Rightarrow> game" where
  "remove_offscreen g =
     g\<lparr>platforms := prune (platforms g), obstacles := prune (obstacles g),
       coins := prune (coins g)\<rparr>"

subsection \<open>Coins and obstacles\<close>

text \<open>
  \<^verbatim>\<open>for coin in coins[:]\<close>: the loop runs over a copy of the list, and
  \<^verbatim>\<open>coins.remove(coin)\<close> removes the first element equal to \<open>coin\<close> from the list itself,
  raising \<^verbatim>\<open>ValueError\<close> when there is none. The loop returns the list and the score as
  they are when it ends or raises.
\<close>

fun coin_loop :: "rect \<Rightarrow> rect list \<Rightarrow> rect list \<times> int \<Rightarrow> error option \<times> rect list \<times> int" where
  "coin_loop pr [] (cs, sc) = (None, cs, sc)"
| "coin_loop pr (coin # snapshot) (cs, sc) =
     (if colliderect pr coin then
        (if coin \<in> set cs then coin_loop pr snapshot (remove1 coin cs, sc + 1)
         else (Some ValueError, cs, sc))
      else coin_loop pr snapshot (cs, sc))"

definition collect_coins :: "game \<Rightarrow> error option \<times> game" where
  "collect_coins g =
     (case coin_loop (rect (player g)) (coins g) (coins g, score g) of
        (e, cs, sc) \<Rightarrow> (e, g\<lparr>coins := cs, score := sc\<rparr>))"

text \<open>\<^verbatim>\<open>for obstacle in obstacles[:]\<close>, with the \<^verbatim>\<open>break\<close> after the reset.\<close>

fun obstacle_loop :: "rect list \<Rightarrow> game \<Rightarrow> game" where
  "obstacle_loop [] g = g"
| "obstacle_loop (obstacle # snapshot) g =
     (if colliderect (rect (player g)) obstacle then do_reset g
      else obstacle_loop snapshot g)"

definition obstacle_collision :: "game \<Rightarrow> game" where
  "obstacle_collision g = obstacle_loop (obstacles g) g"

definition fell_off_screen :: "game \<Rightarrow> game" where
  "fell_off_screen g =
     (if rect_top (rect (player g)) > SCREEN_HEIGHT then do_reset g else g)"

subsection \<open>One iteration of the main loop\<close>

text \<open>
  The part of the \<^verbatim>\<open>if game_started\<close> block before the coin collection: gravity, movement
  and landing, scrolling, spawning and pruning. \<open>dt\<close> is the frame time in seconds.
\<close>

definition move_world :: "real \<Rightarrow> game \<Rightarrow> game" where
  "move_world dt g =
     (let g1 = g\<lparr>player := physics dt (player g) (platforms g)\<rparr>;
          g2 = scroll_world dt g1;
          g3 = spawn_if_needed g2
      in remove_offscreen g3)"

text \<open>
  The body of the \<^verbatim>\<open>try\<close> in the loop, for the milliseconds \<^verbatim>\<open>clock.tick\<close> returned and
  the events \<^verbatim>\<open>pygame.event.get()\<close> returned: the state when the body ends or raises,
  and the exception, if any.
\<close>

definition tick_body :: "nat \<Rightarrow> event list \<Rightarrow> game \<Rightarrow> error option \<times> game" where
  "tick_body ms evs g =
     (let dt = real ms / 1000.0;
          g1 = handle_events evs g
      in if game_started g1 then
           (case collect_coins (move_world dt g1) of
              (Some e, g2) \<Rightarrow> (Some e, g2)
            | (None, g2) \<Rightarrow> (None, fell_off_screen (obstacle_collision g2)))
         else (None, g1))"

text \<open>The iteration with its \<^verbatim>\<open>except Exception\<close> branch, which stops the loop.\<close>

definition tick :: "nat \<Rightarrow> event list \<Rightarrow> game \<Rightarrow> game" where
  "tick ms evs g =
     (case tick_body ms evs g of
        (None, g') \<Rightarrow> g'
      | (Some e, g') \<Rightarrow> g'\<lparr>running := False\<rparr>)"

text \<open>
  \<^verbatim>\<open>while running\<close>, over the frames the clock and the event queue deliver: a frame is
  the milliseconds and the events of one iteration.
\<close>

fun run :: "(nat \<times> event list) list \<Rightarrow> game \<Rightarrow> game" where
  "run [] g = g"
| "run ((ms, evs) # frames) g = (if running g then run frames (tick ms evs g) else g)"

section \<open>Sample inputs\<close>

text \<open>
  A random source whose \<open>i\<close>-th raw draw is \<open>i\<close>, and empty lists with that source.
\<close>

definition sample_rng :: rng where
  "sample_rng = \<lparr> rng_draws = (\<lambda>i. i), rng_pos = 0 \<rparr>"

definition sample_world :: world where
  "sample_world = \<lparr> platforms = [], obstacles = [], coins = [], random_state = sample_rng \<rparr>"

text \<open>The player as \<^verbatim>\<open>main\<close> creates it.\<close>

definition sample_player :: player where
  "sample_player = Player (Rect (SCREEN_WIDTH div 2) 0 30 50)"

text \<open>
  That player standing on the initial platform, and the lists and the random source after
  one and after two calls of \<^verbatim>\<open>reset_game\<close> that start from \<open>sample_world\<close>.
\<close>

definition player_on_roof :: player where
  "player_on_roof =
     \<lparr> rect = Rect 385 370 30 50, jump_power = - 12, gravity = 4 / 5, y_velocity = 0,
       is_grounded = True, jump_count = 0, max_jumps = 2 \<rparr>"

definition world_after_reset :: world where
  "world_after_reset =
     \<lparr> platforms = [Rect 325 420 150 10, Rect 655 370 150 10],
       obstacles = [Rect 677 340 30 30], coins = [Rect 679 320 20 20],
       random_state = sample_rng\<lparr>rng_pos := 5\<rparr> \<rparr>"

definition world_after_second_reset :: world where
  "world_after_second_reset =
     \<lparr> platforms = [Rect 325 420 150 10, Rect 655 375 150 10],
       obstacles = [Rect 682 345 30 30], coins = [Rect 684 325 20 20],
       random_state = sample_rng\<lparr>rng_pos := 10\<rparr> \<rparr>"

text \<open>
  Random sources for which \<^verbatim>\<open>random.random()\<close> returns its largest value always, at the
  second draw only, and at the fourth draw only, and a value below both chances otherwise.
\<close>

definition high_rng :: rng where
  "high_rng = \<lparr> rng_draws = (\<lambda>i. 2 ^ 53 - 1), rng_pos = 0 \<rparr>"

definition high_at_1_rng :: rng where
  "high_at_1_rng = \<lparr> rng_draws = (\<lambda>i. if i = 1 then 2 ^ 53 - 1 else 0), rng_pos = 0 \<rparr>"

definition high_at_3_rng :: rng where
  "high_at_3_rng = \<lparr> rng_draws = (\<lambda>i. if i = 3 then 2 ^ 53 - 1 else 0), rng_pos = 0 \<rparr>"

text \<open>
  A run of nine frames of 100 ms from \<open>init_game sample_rng\<close>: the state when the loop is
  entered and the state after each frame. Space is pressed in the first frame (which starts
  the game), in the fourth (a jump from the roof) and in the eighth (a second jump, in the
  air); in the ninth frame the player meets the obstacle of the second platform.
\<close>

definition frame_0 :: game where
  "frame_0 =
     \<lparr> platforms = [Rect 325 420 150 10, Rect 655 370 150 10],
       obstacles = [Rect 677 340 30 30], coins = [Rect 679 320 20 20],
       random_state = sample_rng\<lparr>rng_pos := 5\<rparr>,
       player = player_on_roof,
       last_platform_x = 985, last_platform_y = 370, score = 0,
       game_started = False, running = True \<rparr>"

definition frame_1 :: game where
  "frame_1 = frame_0\<lparr>platforms := [Rect 295 420 150 10, Rect 625 370 150 10],
                     obstacles := [Rect 647 340 30 30], coins := [Rect 649 320 20 20],
                     last_platform_x := 955, game_started := True\<rparr>"

definition frame_2 :: game where
  "frame_2 = frame_1\<lparr>platforms := [Rect 265 420 150 10, Rect 595 370 150 10],
                     obstacles := [Rect 617 340 30 30], coins := [Rect 619 320 20 20],
                     last_platform_x := 925\<rparr>"

definition frame_3 :: game where
  "frame_3 = frame_2\<lparr>platforms := [Rect 235 420 150 10, Rect 565 370 150 10],
                     obstacles := [Rect 587 340 30 30], coins := [Rect 589 320 20 20],
                     last_platform_x := 895\<rparr>"

definition frame_4 :: game where
  "frame_4 = frame_3\<lparr>platforms := [Rect 205 420 150 10, Rect 535 370 150 10],
                     obstacles := [Rect 557 340 30 30], coins := [Rect 559 320 20 20],
                     last_platform_x := 865,
                     player := player_on_roof\<lparr>rect := Rect 385 327 30 50, y_velocity := - (36 / 5),
                                               is_grounded := False, jump_count := 1\<rparr>\<rparr>"

definition frame_5 :: game where
  "frame_5 = frame_4\<lparr>platforms := [Rect 175 420 150 10, Rect 505 370 150 10],
                     obstacles := [Rect 527 340 30 30], coins := [Rect 529 320 20 20],
                     last_platform_x := 835,
                     player := player_on_roof\<lparr>rect := Rect 385 313 30 50, y_velocity := - (12 / 5),
                                               is_grounded := False, jump_count := 1\<rparr>\<rparr>"

definition frame_6 :: game where
  "frame_6 = frame_5\<lparr>platforms := [Rect 145 420 150 10, Rect 475 370 150 10],
                     obstacles := [Rect 497 340 30 30], coins := [Rect 499 320 20 20],
                     last_platform_x := 805,
                     player := player_on_roof\<lparr>rect := Rect 385 327 30 50, y_velocity := 12 / 5,
                                               is_grounded := False, jump_count := 1\<rparr>\<rparr>"

definition frame_7 :: game where
  "frame_7 = frame_6\<lparr>platforms := [Rect 115 420 150 10, Rect 445 370 150 10, Rect 775 325 150 10],
                     obstacles := [Rect 467 340 30 30, Rect 802 295 30 30],
                     coins := [Rect 469 320 20 20, Rect 804 275 20 20],
                     random_state := sample_rng\<lparr>rng_pos := 10\<rparr>,
                     last_platform_x := 1105, last_platform_y := 325,
                     player := player_on_roof\<lparr>rect := Rect 385 370 30 50, y_velocity := 36 / 5,
                                               is_grounded := False, jump_count := 1\<rparr>\<rparr>"

definition frame_8 :: game where
  "frame_8 = frame_7\<lparr>platforms := [Rect 85 420 150 10, Rect 415 370 150 10, Rect 745 325 150 10],
                     obstacles := [Rect 437 340 30 30, Rect 772 295 30 30],
                     coins := [Rect 439 320 20 20, Rect 774 275 20 20],
                     last_platform_x := 1075,
                     player := player_on_roof\<lparr>rect := Rect 385 327 30 50, y_velocity := - (36 / 5),
                                               is_grounded := False, jump_count := 2\<rparr>\<rparr>"

text \<open>
  The ninth frame before its coin collection (the player has moved and the world has
  scrolled), before its obstacle check (the coin is collected), and at its end.
\<close>

definition frame_9_moved :: game where
  "frame_9_moved =
     frame_8\<lparr>platforms := [Rect 55 420 150 10, Rect 385 370 150 10, Rect 715 325 150 10],
             obstacles := [Rect 407 340 30 30, Rect 742 295 30 30],
             coins := [Rect 409 320 20 20, Rect 744 275 20 20],
             last_platform_x := 1045,
             player := player_on_roof\<lparr>rect := Rect 385 313 30 50, y_velocity := - (12 / 5),
                                       is_grounded := False, jump_count := 2\<rparr>\<rparr>"

definition frame_9_at_obstacle :: game where
  "frame_9_at_obstacle = frame_9_moved\<lparr>coins := [Rect 744 275 20 20], score := 1\<rparr>"

definition frame_9 :: game where
  "frame_9 =
     frame_0\<lparr>platforms := [Rect 325 420 150 10, Rect 655 380 150 10],
             obstacles := [Rect 687 350 30 30], coins := [Rect 689 330 20 20],
             random_state := sample_rng\<lparr>rng_pos := 15\<rparr>,
             last_platform_y := 380\<rparr>"

definition hit_frames :: "(nat \<times> event list) list" where
  "hit_frames =
     [(100, [KEYDOWN_SPACE]), (100, []), (100, []), (100, [KEYDOWN_SPACE]),
      (100, []), (100, []), (100, []), (100, [KEYDOWN_SPACE])]"

text \<open>
  For \<^verbatim>\<open>pygame.Rect\<close>: a constructor that accepts every coordinate, and one that accepts
  the coordinates of a 32-bit C int and raises on the others. Consoles: one on which no
  call of \<^verbatim>\<open>print\<close> raises, one on which the first call raises and the later ones do not,
  and one on which every call raises. Empty lists with \<open>sample_rng\<close> and a console.
\<close>

definition accepting_rect :: "int \<Rightarrow> int \<Rightarrow> int \<Rightarrow> int \<Rightarrow> error + rect" where
  "accepting_rect x y w h = Inr (Rect x y w h)"







section \<open>Unfolding rules\<close>

lemmas config_defs =
  SCREEN_WIDTH_def SCREEN_HEIGHT_def FPS_def GRAVITY_def JUMP_POWER_def MAX_JUMPS_def
  PLATFORM_WIDTH_def PLATFORM_HEIGHT_def PLATFORM_MIN_Y_def PLATFORM_MAX_Y_def
  PLATFORM_Y_DELTA_def HORIZONTAL_GAP_def SCROLL_SPEED_def OBSTACLE_CHANCE_def
  COIN_CHANCE_def OBSTACLE_SIZE_def COIN_SIZE_def COIN_OFFSET_ABOVE_ROOF_def
  EDGE_PADDING_def

lemmas rect_defs =
  rect_top_def rect_bottom_def rect_right_def set_x_def set_y_def set_bottom_def

lemmas spawn_defs =
  spawn_platform_def spawn_body_def spawn_obstacle_def spawn_coin_def randint_def
  random_def next_draw_def Let_def

lemmas tick_defs =
  tick_def tick_body_def handle_events_def move_world_def physics_def integrate_def
  scroll_world_def shift_left_def spawn_if_needed_def remove_offscreen_def prune_def
  collect_coins_def obstacle_collision_def fell_off_screen_def colliderect_def py_int_def

lemmas frame_defs =
  frame_0_def frame_1_def frame_2_def frame_3_def frame_4_def frame_5_def frame_6_def
  frame_7_def frame_8_def frame_9_moved_def frame_9_at_obstacle_def frame_9_def
  player_on_roof_def sample_rng_def

section \<open>The random source and the spawns\<close>

lemma randint_range:
  assumes "randint a b g = Inr (v, g')"
  shows "a \<le> v \<and> v \<le> b"
proof -
  from assms have le: "a \<le> b"
    by (auto simp: randint_def split: if_splits)
  obtain n where v: "v = a + int (n mod nat (b - a + 1))"
    using assms le by (auto simp: randint_def split: prod.splits)
  have "n mod nat (b - a + 1) < nat (b - a + 1)"
    using le by (intro mod_less_divisor) simp
  with v le show ?thesis by linarith
qed

lemma randint_raises: "randint a b g = Inl e \<Longrightarrow> b < a"
  by (auto simp: randint_def split: prod.splits if_splits)

lemma randint_returns: "a \<le> b \<Longrightarrow> \<exists>v g'. randint a b g = Inr (v, g')"
  by (auto simp: randint_def split: prod.splits)

lemma spawn_obstacle_cases:
  assumes "spawn_obstacle w x y = (eo, w')"
  shows "eo = None \<and> platforms w' = platforms w \<and> coins w' = coins w
       \<and> world.more w' = world.more w
       \<and> (obstacles w' = obstacles w
          \<or> (\<exists>d. EDGE_PADDING \<le> d \<and> d \<le> PLATFORM_WIDTH - fst OBSTACLE_SIZE - EDGE_PADDING
               \<and> obstacles w' = obstacles w @
                    [Rect (x + d) (y - snd OBSTACLE_SIZE) (fst OBSTACLE_SIZE) (snd OBSTACLE_SIZE)]))"
proof (cases "random (random_state w)")
  case (Pair r g1)
  show ?thesis
  proof (cases "r < OBSTACLE_CHANCE")
    case False
    with Pair assms show ?thesis by (auto simp: spawn_obstacle_def)
  next
    case True
    have "EDGE_PADDING \<le> PLATFORM_WIDTH - fst OBSTACLE_SIZE - EDGE_PADDING"
      by (simp add: config_defs)
    from randint_returns [OF this] obtain d g2
      where d: "randint EDGE_PADDING (PLATFORM_WIDTH - fst OBSTACLE_SIZE - EDGE_PADDING) g1
                = Inr (d, g2)"
      by blast
    from randint_range [OF d] Pair True d assms show ?thesis
      by (auto simp: spawn_obstacle_def Let_def)
  qed
qed

lemma spawn_coin_cases:
  assumes "spawn_coin w x y = (eo, w')"
  shows "eo = None \<and> platforms w' = platforms w \<and> obstacles w' = obstacles w
       \<and> world.more w' = world.more w
       \<and> (coins w' = coins w
          \<or> (\<exists>d. EDGE_PADDING \<le> d \<and> d \<le> PLATFORM_WIDTH - fst COIN_SIZE - EDGE_PADDING
               \<and> coins w' = coins w @
                    [Rect (x + d) (y - snd COIN_SIZE - COIN_OFFSET_ABOVE_ROOF)
                          (fst COIN_SIZE) (snd COIN_SIZE)]))"
proof (cases "random (random_state w)")
  case (Pair r g1)
  show ?thesis
  proof (cases "r < COIN_CHANCE")
    case False
    with Pair assms show ?thesis by (auto simp: spawn_coin_def)
  next
    case True
    have "EDGE_PADDING \<le> PLATFORM_WIDTH - fst COIN_SIZE - EDGE_PADDING"
      by (simp add: config_defs)
    from randint_returns [OF this] obtain d g2
      where d: "randint EDGE_PADDING (PLATFORM_WIDTH - fst COIN_SIZE - EDGE_PADDING) g1
                = Inr (d, g2)"
      by blast
    from randint_range [OF d] Pair True d assms show ?thesis
      by (auto simp: spawn_coin_def Let_def)
  qed
qed

text \<open>
  Without the failures of \<^verbatim>\<open>pygame.Rect\<close> and \<^verbatim>\<open>print\<close>, the body raises only at the
  first \<^verbatim>\<open>randint\<close>, on an empty range, with nothing changed yet.
\<close>

lemma spawn_body_raises:
  assumes "spawn_body w ly x = (Inl e, w')"
  shows "w' = w \<and> min PLATFORM_MAX_Y (ly + PLATFORM_Y_DELTA)
                   < max PLATFORM_MIN_Y (ly - PLATFORM_Y_DELTA)"
  using assms unfolding spawn_body_def
  by (auto simp: Let_def split: sum.splits prod.splits if_splits option.splits
        dest: randint_raises spawn_obstacle_cases spawn_coin_cases)

lemma spawn_body_returns:
  assumes "spawn_body w ly x = (Inr (nx, ny), w')"
  shows "nx = x + PLATFORM_WIDTH + HORIZONTAL_GAP
       \<and> platforms w' = platforms w @ [Rect x ny PLATFORM_WIDTH PLATFORM_HEIGHT]
       \<and> max PLATFORM_MIN_Y (ly - PLATFORM_Y_DELTA) \<le> ny
       \<and> ny \<le> min PLATFORM_MAX_Y (ly + PLATFORM_Y_DELTA)
       \<and> world.more w' = world.more w"
  using assms unfolding spawn_body_def
  by (auto simp: Let_def split: sum.splits prod.splits if_splits option.splits
        dest!: randint_range spawn_obstacle_cases spawn_coin_cases)

text \<open>
  Either way out of \<^verbatim>\<open>spawn_platform\<close>: the \<^verbatim>\<open>except\<close> branch, with nothing changed, or
  the \<^verbatim>\<open>return\<close> of the body, with the platform appended.
\<close>

lemma spawn_platform_cases:
  assumes "spawn_platform w ly x = ((nx, ny), w')"
  shows "(w' = w \<and> ny = ly \<and> nx = x + PLATFORM_WIDTH + HORIZONTAL_GAP
          \<and> min PLATFORM_MAX_Y (ly + PLATFORM_Y_DELTA) < max PLATFORM_MIN_Y (ly - PLATFORM_Y_DELTA))
       \<or> (nx = x + PLATFORM_WIDTH + HORIZONTAL_GAP
          \<and> platforms w' = platforms w @ [Rect x ny PLATFORM_WIDTH PLATFORM_HEIGHT]
          \<and> max PLATFORM_MIN_Y (ly - PLATFORM_Y_DELTA) \<le> ny
          \<and> ny \<le> min PLATFORM_MAX_Y (ly + PLATFORM_Y_DELTA)
          \<and> world.more w' = world.more w)"
proof (cases "spawn_body w ly x")
  case (Pair res w1)
  show ?thesis
  proof (cases res)
    case (Inl e)
    with Pair assms spawn_body_raises [of w ly x e w1] show ?thesis
      by (auto simp: spawn_platform_def)
  next
    case (Inr r)
    with Pair assms spawn_body_returns [of w ly x "fst r" "snd r" w1] show ?thesis
      by (auto simp: spawn_platform_def)
  qed
qed

section \<open>The platform's height\<close>

text \<open>
  C1. Whenever \<^verbatim>\<open>spawn_platform\<close> appends a platform, the platform is at the x it was
  given and at the y it returns, and that y is in the band
  \<open>[PLATFORM_MIN_Y, PLATFORM_MAX_Y]\<close> and at most \<open>PLATFORM_Y_DELTA\<close> away from the previous
  y. With the previous y at 420 a platform is always appended, and its y is in
  \<open>[370, 400]\<close>.
\<close>

theorem spawn_platform_y_bounds:
  assumes "spawn_platform w last_y x = ((next_x, new_y), w')"
  shows "(platforms w' \<noteq> platforms w \<longrightarrow>
            platforms w' = platforms w @ [Rect x new_y PLATFORM_WIDTH PLATFORM_HEIGHT]
            \<and> PLATFORM_MIN_Y \<le> new_y \<and> new_y \<le> PLATFORM_MAX_Y
            \<and> \<bar>new_y - last_y\<bar> \<le> PLATFORM_Y_DELTA)
       \<and> (last_y = 420 \<longrightarrow>
            platforms w' = platforms w @ [Rect x new_y PLATFORM_WIDTH PLATFORM_HEIGHT]
            \<and> 370 \<le> new_y \<and> new_y \<le> 400)"
  using spawn_platform_cases [OF assms]
  by (auto simp: config_defs)

theorem spawn_platform_y_bounds_witness:
  "spawn_platform sample_world 420 655
     = ((985, 370), sample_world\<lparr>platforms := [Rect 655 370 150 10],
                                 obstacles := [Rect 677 340 30 30],
                                 coins := [Rect 679 320 20 20],
                                 random_state := sample_rng\<lparr>rng_pos := 5\<rparr>\<rparr>)
   \<and> [Rect 655 370 150 10] \<noteq> platforms sample_world
   \<and> [Rect 655 370 150 10] = platforms sample_world @ [Rect 655 370 PLATFORM_WIDTH PLATFORM_HEIGHT]
   \<and> PLATFORM_MIN_Y \<le> 370 \<and> 370 \<le> PLATFORM_MAX_Y \<and> \<bar>370 - 420\<bar> \<le> PLATFORM_Y_DELTA"
proof -
  have run: "spawn_platform sample_world 420 655
     = ((985, 370), sample_world\<lparr>platforms := [Rect 655 370 150 10],
                                 obstacles := [Rect 677 340 30 30],
                                 coins := [Rect 679 320 20 20],
                                 random_state := sample_rng\<lparr>rng_pos := 5\<rparr>\<rparr>)"
    by (simp add: spawn_defs config_defs sample_world_def sample_rng_def)
  from spawn_platform_y_bounds [OF run] run show ?thesis
    by (simp add: sample_world_def)
qed

section \<open>The failure policy of spawn_platform\<close>






lemma print_line_quiet:
  assumes "\<And>n. \<not> print_raises (console w) n"
  shows "print_line w
       = (None, w\<lparr>console := (console w)\<lparr>print_count := Suc (print_count (console w))\<rparr>\<rparr>)"
  using assms by (simp add: print_line_def)

lemma spawn_obstacle_io_quiet:
  assumes quiet: "\<And>n. \<not> print_raises (console w) n"
  shows "\<exists>c. print_raises c = print_raises (console w)
           \<and> spawn_obstacle_io accepting_rect w x y
             = (fst (spawn_obstacle w x y), (snd (spawn_obstacle w x y))\<lparr>console := c\<rparr>)"
proof (cases "random (random_state w)")
  case (Pair r g1)
  show ?thesis
  proof (cases "r < OBSTACLE_CHANCE")
    case False
    with Pair have "spawn_obstacle_io accepting_rect w x y
        = (fst (spawn_obstacle w x y), (snd (spawn_obstacle w x y))\<lparr>console := console w\<rparr>)"
      by (simp add: spawn_obstacle_io_def spawn_obstacle_def)
    then show ?thesis by blast
  next
    case True
    show ?thesis
    proof (cases "randint EDGE_PADDING (PLATFORM_WIDTH - fst OBSTACLE_SIZE - EDGE_PADDING) g1")
      case (Inl e)
      with Pair True have "spawn_obstacle_io accepting_rect w x y
          = (fst (spawn_obstacle w x y), (snd (spawn_obstacle w x y))\<lparr>console := console w\<rparr>)"
        by (simp add: spawn_obstacle_io_def spawn_obstacle_def)
      then show ?thesis by blast
    next
      case (Inr dg)
      obtain d g2 where dg: "dg = (d, g2)" by (cases dg)
      let ?c = "(console w)\<lparr>print_count := Suc (print_count (console w))\<rparr>"
      from Pair True Inr dg quiet have "spawn_obstacle_io accepting_rect w x y
          = (fst (spawn_obstacle w x y), (snd (spawn_obstacle w x y))\<lparr>console := ?c\<rparr>)"
        by (simp add: spawn_obstacle_io_def spawn_obstacle_def accepting_rect_def log_info_def
              print_line_def Let_def)
      moreover have "print_raises ?c = print_raises (console w)" by simp
      ultimately show ?thesis by blast
    qed
  qed
qed

lemma spawn_coin_io_quiet:
  assumes quiet: "\<And>n. \<not> print_raises (console w) n"
  shows "\<exists>c. print_raises c = print_raises (console w)
           \<and> spawn_coin_io accepting_rect w x y
             = (fst (spawn_coin w x y), (snd (spawn_coin w x y))\<lparr>console := c\<rparr>)"
proof (cases "random (random_state w)")
  case (Pair r g1)
  show ?thesis
  proof (cases "r < COIN_CHANCE")
    case False
    with Pair have "spawn_coin_io accepting_rect w x y
        = (fst (spawn_coin w x y), (snd (spawn_coin w x y))\<lparr>console := console w\<rparr>)"
      by (simp add: spawn_coin_io_def spawn_coin_def)
    then show ?thesis by blast
  next
    case True
    show ?thesis
    proof (cases "randint EDGE_PADDING (PLATFORM_WIDTH - fst COIN_SIZE - EDGE_PADDING) g1")
      case (Inl e)
      with Pair True have "spawn_coin_io accepting_rect w x y
          = (fst (spawn_coin w x y), (snd (spawn_coin w x y))\<lparr>console := console w\<rparr>)"
        by (simp add: spawn_coin_io_def spawn_coin_def)
      then show ?thesis by blast
    next
      case (Inr dg)
      obtain d g2 where dg: "dg = (d, g2)" by (cases dg)
      let ?c = "(console w)\<lparr>print_count := Suc (print_count (console w))\<rparr>"
      from Pair True Inr dg quiet have "spawn_coin_io accepting_rect w x y
          = (fst (spawn_coin w x y), (snd (spawn_coin w x y))\<lparr>console := ?c\<rparr>)"
        by (simp add: spawn_coin_io_def spawn_coin_def accepting_rect_def log_info_def
              print_line_def Let_def)
      moreover have "print_raises ?c = print_raises (console w)" by simp
      ultimately show ?thesis by blast
    qed
  qed
qed


lemma spawn_obstacle_console:
  "spawn_obstacle (w\<lparr>console := c\<rparr>) x y
     = (fst (spawn_obstacle w x y), (snd (spawn_obstacle w x y))\<lparr>console := c\<rparr>)"
  by (simp add: spawn_obstacle_def Let_def split: prod.splits sum.splits)

lemma spawn_coin_console:
  "spawn_coin (w\<lparr>console := c\<rparr>) x y
     = (fst (spawn_coin w x y), (snd (spawn_coin w x y))\<lparr>console := c\<rparr>)"
  by (simp add: spawn_coin_def Let_def split: prod.splits sum.splits)

lemma spawn_body_io_quiet:
  assumes quiet: "\<And>n. \<not> print_raises (console w) n"
  shows "\<exists>c. print_raises c = print_raises (console w)
           \<and> spawn_body_io accepting_rect w ly x
             = (fst (spawn_body w ly x), (snd (spawn_body w ly x))\<lparr>console := c\<rparr>)"
proof (cases "randint (max PLATFORM_MIN_Y (ly - PLATFORM_Y_DELTA))
                      (min PLATFORM_MAX_Y (ly + PLATFORM_Y_DELTA)) (random_state w)")
  case (Inl e)
  then have "spawn_body_io accepting_rect w ly x
      = (fst (spawn_body w ly x), (snd (spawn_body w ly x))\<lparr>console := console w\<rparr>)"
    by (simp add: spawn_body_io_def spawn_body_def)
  then show ?thesis by blast
next
  case (Inr yg)
  obtain y g1 where yg: "yg = (y, g1)" by (cases yg)
  let ?v1 = "w\<lparr>platforms := platforms w @ [Rect x y PLATFORM_WIDTH PLATFORM_HEIGHT],
               random_state := g1\<rparr>"
  let ?c1 = "(console w)\<lparr>print_count := Suc (print_count (console w))\<rparr>"
  have log: "log_info ?v1 = (None, ?v1\<lparr>console := ?c1\<rparr>)"
    using quiet by (simp add: log_info_def print_line_def)
  have q1: "\<And>n. \<not> print_raises (console (?v1\<lparr>console := ?c1\<rparr>)) n"
    using quiet by simp
  show ?thesis
  proof (cases "x > SCREEN_WIDTH div 4")
    case False
    with Inr yg log have "spawn_body_io accepting_rect w ly x
        = (fst (spawn_body w ly x), (snd (spawn_body w ly x))\<lparr>console := ?c1\<rparr>)"
      by (simp add: spawn_body_io_def spawn_body_def accepting_rect_def Let_def)
    moreover have "print_raises ?c1 = print_raises (console w)" by simp
    ultimately show ?thesis by blast
  next
    case True
    obtain eo v2 where ob: "spawn_obstacle ?v1 x y = (eo, v2)" by (cases "spawn_obstacle ?v1 x y")
    from spawn_obstacle_cases [OF ob] have eo: "eo = None" by simp
    from spawn_obstacle_io_quiet [OF q1, of x y] obtain c2
      where c2: "print_raises c2 = print_raises (console w)"
        and ob_io: "spawn_obstacle_io accepting_rect (?v1\<lparr>console := ?c1\<rparr>) x y
                    = (None, v2\<lparr>console := c2\<rparr>)"
      using ob eo by (auto simp: spawn_obstacle_console)
    have q2: "\<And>n. \<not> print_raises (console (v2\<lparr>console := c2\<rparr>)) n"
      using quiet c2 by simp
    obtain ec v3 where co: "spawn_coin v2 x y = (ec, v3)" by (cases "spawn_coin v2 x y")
    from spawn_coin_cases [OF co] have ec: "ec = None" by simp
    from spawn_coin_io_quiet [OF q2, of x y] obtain c3
      where c3: "print_raises c3 = print_raises (console w)"
        and co_io: "spawn_coin_io accepting_rect (v2\<lparr>console := c2\<rparr>) x y
                    = (None, v3\<lparr>console := c3\<rparr>)"
      using co ec c2 by (auto simp: spawn_coin_console)
    from Inr yg True ob eo co ec have "spawn_body w ly x
        = (Inr (x + PLATFORM_WIDTH + HORIZONTAL_GAP, y), v3)"
      by (simp add: spawn_body_def Let_def)
    moreover from Inr yg True log ob_io co_io have "spawn_body_io accepting_rect w ly x
        = (Inr (x + PLATFORM_WIDTH + HORIZONTAL_GAP, y), v3\<lparr>console := c3\<rparr>)"
      by (simp add: spawn_body_io_def accepting_rect_def)
    ultimately show ?thesis using c3 by auto
  qed
qed

text \<open>
  With a constructor that accepts every coordinate and a console on which no call raises,
  \<open>spawn_platform_io\<close> returns what \<open>spawn_platform\<close> returns and leaves the lists and the
  random source as \<open>spawn_platform\<close> leaves them.
\<close>

lemma spawn_platform_io_quiet:
  assumes quiet: "\<And>n. \<not> print_raises (console w) n"
  shows "\<exists>c. spawn_platform_io accepting_rect w ly x
             = (Inr (fst (spawn_platform w ly x)), (snd (spawn_platform w ly x))\<lparr>console := c\<rparr>)"
proof -
  from spawn_body_io_quiet [OF quiet, of ly x] obtain c
    where c: "print_raises c = print_raises (console w)"
      and body: "spawn_body_io accepting_rect w ly x
                 = (fst (spawn_body w ly x), (snd (spawn_body w ly x))\<lparr>console := c\<rparr>)"
    by blast
  obtain res v where sb: "spawn_body w ly x = (res, v)" by (cases "spawn_body w ly x")
  show ?thesis
  proof (cases res)
    case (Inr r)
    with body sb have "spawn_platform_io accepting_rect w ly x
        = (Inr (fst (spawn_platform w ly x)), (snd (spawn_platform w ly x))\<lparr>console := c\<rparr>)"
      by (simp add: spawn_platform_io_def spawn_platform_def)
    then show ?thesis by blast
  next
    case (Inl e)
    have "\<not> print_raises c (print_count c)"
      using quiet c by simp
    with Inl body sb have "spawn_platform_io accepting_rect w ly x
        = (Inr (fst (spawn_platform w ly x)),
           (snd (spawn_platform w ly x))\<lparr>console := c\<lparr>print_count := Suc (print_count c)\<rparr>\<rparr>)"
      by (simp add: spawn_platform_io_def spawn_platform_def log_error_def print_line_def)
    then show ?thesis by blast
  qed
qed










section \<open>reset_game\<close>

lemma reset_game_unfold:
  "reset_game p w =
     (case spawn_platform
             (w\<lparr>obstacles := [], coins := [], platforms := [Rect 325 420 150 10]\<rparr>) 420 655 of
        ((lx, ly), w2) \<Rightarrow>
          ((lx, ly, 0, False),
           p\<lparr>rect := Rect (400 - rect_width (rect p) div 2) (420 - rect_height (rect p))
                          (rect_width (rect p)) (rect_height (rect p)),
             y_velocity := 0, is_grounded := True, jump_count := 0\<rparr>,
           w2))"
  by (simp add: reset_game_def Let_def config_defs py_int_def rect_defs)

lemma reset_game_cases:
  assumes "reset_game p w = ((lx, ly, sc, st), p', w')"
  shows "lx = 985 \<and> 370 \<le> ly \<and> ly \<le> 400 \<and> sc = 0 \<and> \<not> st
       \<and> p' = p\<lparr>rect := Rect (400 - rect_width (rect p) div 2) (420 - rect_height (rect p))
                              (rect_width (rect p)) (rect_height (rect p)),
                 y_velocity := 0, is_grounded := True, jump_count := 0\<rparr>
       \<and> platforms w' = [Rect 325 420 150 10, Rect 655 ly 150 10]
       \<and> world.more w' = world.more w"
proof -
  let ?w1 = "w\<lparr>obstacles := [], coins := [], platforms := [Rect 325 420 150 10]\<rparr>"
  obtain nx ny w2 where sp: "spawn_platform ?w1 420 655 = ((nx, ny), w2)"
    by (metis prod.exhaust)
  from spawn_platform_cases [OF sp]
  have "nx = 985 \<and> 370 \<le> ny \<and> ny \<le> 400
      \<and> platforms w2 = [Rect 325 420 150 10, Rect 655 ny 150 10]
      \<and> world.more w2 = world.more w"
    by (auto simp: config_defs)
  with assms sp show ?thesis
    by (auto simp: reset_game_unfold)
qed

lemma reset_game_sample:
  "reset_game sample_player sample_world
     = ((985, 370, 0, False),
        player_on_roof,
        world_after_reset)"
  by (simp add: reset_game_unfold spawn_defs config_defs sample_rng_def sample_world_def
        sample_player_def Player_def player_on_roof_def world_after_reset_def
        world_after_second_reset_def)

text \<open>
  C9. After \<^verbatim>\<open>reset_game\<close> the platform list holds exactly two platforms, the initial
  one at \<open>(325, 420)\<close> and the chained one at \<open>x = 655\<close>, at the y the function returns;
  the started flag it returns is false. 655 is beyond the buffer \<open>SCREEN_WIDTH // 4 = 200\<close>,
  and whatever the player and the lists were, there is a random source for which the
  obstacle list and the coin list are both non-empty after the reset, one for which only
  the obstacle list is, one for which only the coin list is, and one for which both are
  empty.
\<close>

theorem reset_game_two_platforms:
  assumes "reset_game p w = ((lx, ly, sc, st), p', w')"
  shows "platforms w' = [Rect 325 420 PLATFORM_WIDTH PLATFORM_HEIGHT,
                         Rect 655 ly PLATFORM_WIDTH PLATFORM_HEIGHT]
       \<and> \<not> st \<and> SCREEN_WIDTH div 4 = 200 \<and> SCREEN_WIDTH div 4 < 655
       \<and> (\<exists>g. case reset_game p (w\<lparr>random_state := g\<rparr>) of
                 (r, q, v) \<Rightarrow> obstacles v \<noteq> [] \<and> coins v \<noteq> [])
       \<and> (\<exists>g. case reset_game p (w\<lparr>random_state := g\<rparr>) of
                 (r, q, v) \<Rightarrow> obstacles v \<noteq> [] \<and> coins v = [])
       \<and> (\<exists>g. case reset_game p (w\<lparr>random_state := g\<rparr>) of
                 (r, q, v) \<Rightarrow> obstacles v = [] \<and> coins v \<noteq> [])
       \<and> (\<exists>g. case reset_game p (w\<lparr>random_state := g\<rparr>) of
                 (r, q, v) \<Rightarrow> obstacles v = [] \<and> coins v = [])"
proof -
  have both: "case reset_game p (w\<lparr>random_state := sample_rng\<rparr>) of
                (r, q, v) \<Rightarrow> obstacles v \<noteq> [] \<and> coins v \<noteq> []"
    by (simp add: reset_game_unfold spawn_defs config_defs sample_rng_def)
  have obstacle_only: "case reset_game p (w\<lparr>random_state := high_at_3_rng\<rparr>) of
                (r, q, v) \<Rightarrow> obstacles v \<noteq> [] \<and> coins v = []"
    by (simp add: reset_game_unfold spawn_defs config_defs high_at_3_rng_def)
  have coin_only: "case reset_game p (w\<lparr>random_state := high_at_1_rng\<rparr>) of
                (r, q, v) \<Rightarrow> obstacles v = [] \<and> coins v \<noteq> []"
    by (simp add: reset_game_unfold spawn_defs config_defs high_at_1_rng_def)
  have neither: "case reset_game p (w\<lparr>random_state := high_rng\<rparr>) of
                (r, q, v) \<Rightarrow> obstacles v = [] \<and> coins v = []"
    by (simp add: reset_game_unfold spawn_defs config_defs high_rng_def)
  from both have e1: "\<exists>g. case reset_game p (w\<lparr>random_state := g\<rparr>) of
                 (r, q, v) \<Rightarrow> obstacles v \<noteq> [] \<and> coins v \<noteq> []"
    by (rule exI)
  from obstacle_only have e2: "\<exists>g. case reset_game p (w\<lparr>random_state := g\<rparr>) of
                 (r, q, v) \<Rightarrow> obstacles v \<noteq> [] \<and> coins v = []"
    by (rule exI)
  from coin_only have e3: "\<exists>g. case reset_game p (w\<lparr>random_state := g\<rparr>) of
                 (r, q, v) \<Rightarrow> obstacles v = [] \<and> coins v \<noteq> []"
    by (rule exI)
  from neither have e4: "\<exists>g. case reset_game p (w\<lparr>random_state := g\<rparr>) of
                 (r, q, v) \<Rightarrow> obstacles v = [] \<and> coins v = []"
    by (rule exI)
  from reset_game_cases [OF assms]
  have two: "platforms w' = [Rect 325 420 PLATFORM_WIDTH PLATFORM_HEIGHT,
                             Rect 655 ly PLATFORM_WIDTH PLATFORM_HEIGHT]"
    and stopped: "\<not> st"
    by (simp_all add: config_defs)
  have buffer: "SCREEN_WIDTH div 4 = 200"
    and beyond: "SCREEN_WIDTH div 4 < 655"
    by (simp_all add: config_defs)
  from two stopped buffer beyond e1 e2 e3 e4 show ?thesis
    by (intro conjI)
qed

theorem reset_game_two_platforms_witness:
  "reset_game sample_player sample_world
     = ((985, 370, 0, False),
        player_on_roof,
        world_after_reset)
   \<and> platforms world_after_reset
       = [Rect 325 420 PLATFORM_WIDTH PLATFORM_HEIGHT, Rect 655 370 PLATFORM_WIDTH PLATFORM_HEIGHT]
   \<and> SCREEN_WIDTH div 4 = 200 \<and> SCREEN_WIDTH div 4 < 655"
  using reset_game_two_platforms [OF reset_game_sample] reset_game_sample
  by simp

lemma reset_game_sample_again:
  "reset_game player_on_roof world_after_reset
     = ((985, 375, 0, False), player_on_roof, world_after_second_reset)"
  by (simp add: reset_game_unfold spawn_defs config_defs sample_rng_def
        player_on_roof_def world_after_reset_def world_after_second_reset_def)

text \<open>
  C8, as the claim states it, fails: the second of two calls in a row draws from the
  random source where the first call left it, so the chained platform's y (which is the
  frontier y returned), the obstacle and the coin differ.
\<close>

theorem reset_game_twice_differs:
  "reset_game sample_player sample_world
     = ((985, 370, 0, False), player_on_roof, world_after_reset)
   \<and> reset_game player_on_roof world_after_reset
     = ((985, 375, 0, False), player_on_roof, world_after_second_reset)
   \<and> platforms world_after_reset = [Rect 325 420 150 10, Rect 655 370 150 10]
   \<and> platforms world_after_second_reset = [Rect 325 420 150 10, Rect 655 375 150 10]
   \<and> obstacles world_after_reset = [Rect 677 340 30 30]
   \<and> obstacles world_after_second_reset = [Rect 682 345 30 30]
   \<and> coins world_after_reset = [Rect 679 320 20 20]
   \<and> coins world_after_second_reset = [Rect 684 325 20 20]"
  using reset_game_sample reset_game_sample_again
  by (simp add: world_after_reset_def world_after_second_reset_def)

text \<open>
  C8, amended. Of two calls of \<^verbatim>\<open>reset_game\<close> in a row, the second returns the same
  player, frontier x, score and started flag as the first, and leaves the same initial
  platform and the same number of platforms. What the chained spawn draws (the chained
  platform's y, the obstacle, the coin) is drawn afresh by each call: the second call
  gives the whole result of the first again when the random source is put back to where
  the first call found it.
\<close>

theorem reset_game_twice:
  assumes first: "reset_game p w = ((lx1, ly1, sc1, st1), p1, w1)"
    and second: "reset_game p1 w1 = ((lx2, ly2, sc2, st2), p2, w2)"
  shows "p2 = p1 \<and> lx2 = lx1 \<and> sc2 = sc1 \<and> st2 = st1
       \<and> hd (platforms w2) = hd (platforms w1)
       \<and> length (platforms w2) = length (platforms w1)
       \<and> reset_game p1 (w1\<lparr>random_state := random_state w\<rparr>) = ((lx1, ly1, sc1, st1), p1, w1)"
proof -
  note a = reset_game_cases [OF first]
  note b = reset_game_cases [OF second]
  from a have p1: "p1\<lparr>rect := Rect (400 - rect_width (rect p1) div 2) (420 - rect_height (rect p1))
                             (rect_width (rect p1)) (rect_height (rect p1)),
                       y_velocity := 0, is_grounded := True, jump_count := 0\<rparr> = p1"
    by simp
  from a b p1 have "p2 = p1" by simp
  moreover from a b have "lx2 = lx1 \<and> sc2 = sc1 \<and> st2 = st1
       \<and> hd (platforms w2) = hd (platforms w1) \<and> length (platforms w2) = length (platforms w1)"
    by simp
  moreover have weq: "w1\<lparr>random_state := random_state w, obstacles := [], coins := [],
                     platforms := [Rect 325 420 150 10]\<rparr>
               = w\<lparr>obstacles := [], coins := [], platforms := [Rect 325 420 150 10]\<rparr>"
    using a by (intro world.equality) simp_all
  have "reset_game p1 (w1\<lparr>random_state := random_state w\<rparr>) = reset_game p w"
    using a by (simp only: reset_game_unfold weq p1) simp
  then have "reset_game p1 (w1\<lparr>random_state := random_state w\<rparr>) = ((lx1, ly1, sc1, st1), p1, w1)"
    using first by simp
  ultimately show ?thesis by simp
qed

theorem reset_game_twice_witness:
  "reset_game sample_player sample_world
     = ((985, 370, 0, False), player_on_roof, world_after_reset)
   \<and> reset_game player_on_roof world_after_reset
     = ((985, 375, 0, False), player_on_roof, world_after_second_reset)
   \<and> hd (platforms world_after_second_reset) = hd (platforms world_after_reset)
   \<and> length (platforms world_after_second_reset) = length (platforms world_after_reset)
   \<and> reset_game player_on_roof (world_after_reset\<lparr>random_state := random_state sample_world\<rparr>)
     = ((985, 370, 0, False), player_on_roof, world_after_reset)"
  using reset_game_twice [OF reset_game_sample reset_game_sample_again]
    reset_game_sample reset_game_sample_again
  by simp

section \<open>The phases of an iteration\<close>

text \<open>
  \<^verbatim>\<open>spawn_platform\<close> and \<^verbatim>\<open>reset_game\<close> change the lists and the random source only.
\<close>

lemma world_frame:
  fixes w w' :: "'a world_scheme"
  assumes "world.more w' = world.more w"
  shows "w' = w\<lparr>platforms := platforms w', obstacles := obstacles w', coins := coins w',
                random_state := random_state w'\<rparr>"
  by (rule world.equality) (simp_all add: assms)

lemma spawn_platform_frame:
  assumes "spawn_platform w ly x = (r, w')"
  shows "world.more w' = world.more w"
  using spawn_platform_cases [of w ly x "fst r" "snd r" w'] assms by auto

lemma spawn_if_needed_frame:
  "player (spawn_if_needed g) = player g \<and> score (spawn_if_needed g) = score g
 \<and> game_started (spawn_if_needed g) = game_started g
 \<and> running (spawn_if_needed g) = running g"
proof (cases "spawn_platform g (last_platform_y g) (last_platform_x g)")
  case (Pair r g')
  from world_frame [OF spawn_platform_frame [OF Pair]] obtain ps os cs rs
    where "g' = g\<lparr>platforms := ps, obstacles := os, coins := cs, random_state := rs\<rparr>"
    by blast
  with Pair show ?thesis
    by (cases r) (simp add: spawn_if_needed_def)
qed

lemma do_reset_cases:
  "\<exists>ly os cs rs. 370 \<le> ly \<and> ly \<le> 400 \<and>
     do_reset g = g\<lparr>platforms := [Rect 325 420 150 10, Rect 655 ly 150 10],
                    obstacles := os, coins := cs, random_state := rs,
                    player := (player g)\<lparr>rect := Rect (400 - rect_width (rect (player g)) div 2)
                                                   (420 - rect_height (rect (player g)))
                                                   (rect_width (rect (player g)))
                                                   (rect_height (rect (player g))),
                                          y_velocity := 0, is_grounded := True, jump_count := 0\<rparr>,
                    last_platform_x := 985, last_platform_y := ly, score := 0,
                    game_started := False\<rparr>"
proof -
  obtain lx ly sc st p' g' where r: "reset_game (player g) g = ((lx, ly, sc, st), p', g')"
    by (metis prod.exhaust)
  note c = reset_game_cases [OF r]
  from c have "world.more g' = world.more g" by simp
  from world_frame [OF this] c obtain os cs rs
    where g': "g' = g\<lparr>platforms := [Rect 325 420 150 10, Rect 655 ly 150 10],
                       obstacles := os, coins := cs, random_state := rs\<rparr>"
    by auto
  have "do_reset g = g\<lparr>platforms := [Rect 325 420 150 10, Rect 655 ly 150 10],
                    obstacles := os, coins := cs, random_state := rs,
                    player := (player g)\<lparr>rect := Rect (400 - rect_width (rect (player g)) div 2)
                                                   (420 - rect_height (rect (player g)))
                                                   (rect_width (rect (player g)))
                                                   (rect_height (rect (player g))),
                                          y_velocity := 0, is_grounded := True, jump_count := 0\<rparr>,
                    last_platform_x := 985, last_platform_y := ly, score := 0,
                    game_started := False\<rparr>"
    using r c by (simp add: do_reset_def g')
  with c show ?thesis by blast
qed

lemma do_reset_grounded:
  "\<not> game_started (do_reset g) \<and> score (do_reset g) = 0
 \<and> (\<exists>y. platforms (do_reset g) = [Rect 325 420 PLATFORM_WIDTH PLATFORM_HEIGHT,
                                    Rect 655 y PLATFORM_WIDTH PLATFORM_HEIGHT])
 \<and> rect_bottom (rect (player (do_reset g))) = rect_top (hd (platforms (do_reset g)))
 \<and> y_velocity (player (do_reset g)) = 0 \<and> jump_count (player (do_reset g)) = 0
 \<and> is_grounded (player (do_reset g))
 \<and> max_jumps (player (do_reset g)) = max_jumps (player g)
 \<and> running (do_reset g) = running g"
proof -
  from do_reset_cases [of g] obtain ly os cs rs where
    "do_reset g = g\<lparr>platforms := [Rect 325 420 150 10, Rect 655 ly 150 10],
                    obstacles := os, coins := cs, random_state := rs,
                    player := (player g)\<lparr>rect := Rect (400 - rect_width (rect (player g)) div 2)
                                                   (420 - rect_height (rect (player g)))
                                                   (rect_width (rect (player g)))
                                                   (rect_height (rect (player g))),
                                          y_velocity := 0, is_grounded := True, jump_count := 0\<rparr>,
                    last_platform_x := 985, last_platform_y := ly, score := 0,
                    game_started := False\<rparr>"
    by blast
  then show ?thesis
    by (simp add: rect_defs config_defs)
qed

text \<open>The landing loop stops at the first platform that matches.\<close>

lemma landing_check_find:
  "landing_check p old_bottom plats =
     (case find (\<lambda>platform. colliderect (rect p) platform \<and> old_bottom \<le> rect_top platform)
             plats of
        None \<Rightarrow> p
      | Some platform \<Rightarrow>
          p\<lparr>rect := set_bottom (rect p) (rect_top platform),
            y_velocity := 0, is_grounded := True, jump_count := 0\<rparr>)"
  by (induction plats) auto

text \<open>
  The coin loop, started on a list whose first part \<open>pre\<close> the player does not touch and
  whose rest is what is left of the copy: \<^verbatim>\<open>remove\<close> always finds the coin, and it is
  the coin at the head of the rest that goes.
\<close>

lemma coin_loop_filter:
  assumes "\<forall>c \<in> set pre. \<not> colliderect pr c"
  shows "coin_loop pr snapshot (pre @ snapshot, sc)
       = (None, pre @ [c \<leftarrow> snapshot. \<not> colliderect pr c],
          sc + int (length [c \<leftarrow> snapshot. colliderect pr c]))"
  using assms
proof (induction snapshot arbitrary: pre sc)
  case Nil
  then show ?case by simp
next
  case (Cons coin snapshot)
  show ?case
  proof (cases "colliderect pr coin")
    case True
    with Cons.prems have "coin \<notin> set pre" by auto
    then have "remove1 coin (pre @ coin # snapshot) = pre @ snapshot"
      by (simp add: remove1_append)
    with True Cons.IH [OF Cons.prems, of "sc + 1"] show ?thesis by simp
  next
    case False
    with Cons.prems have "\<forall>c \<in> set (pre @ [coin]). \<not> colliderect pr c" by auto
    from Cons.IH [OF this, of sc] False show ?thesis by simp
  qed
qed

lemma collect_coins_eq:
  "collect_coins g =
     (None, g\<lparr>coins := [c \<leftarrow> coins g. \<not> colliderect (rect (player g)) c],
              score := score g + int (length [c \<leftarrow> coins g. colliderect (rect (player g)) c])\<rparr>)"
  using coin_loop_filter [of "[]" "rect (player g)" "coins g" "score g"]
  by (simp add: collect_coins_def)

lemma obstacle_loop_eq:
  "obstacle_loop snapshot g =
     (if \<exists>obstacle \<in> set snapshot. colliderect (rect (player g)) obstacle then do_reset g else g)"
  by (induction snapshot) auto

lemma obstacle_collision_cases:
  "obstacle_collision g = g \<or> obstacle_collision g = do_reset g"
  by (simp add: obstacle_collision_def obstacle_loop_eq)

lemma fell_off_screen_cases:
  "fell_off_screen g = g \<or> fell_off_screen g = do_reset g"
  by (simp add: fell_off_screen_def)

lemma move_world_frame:
  "player (move_world dt g) = physics dt (player g) (platforms g)
 \<and> score (move_world dt g) = score g
 \<and> game_started (move_world dt g) = game_started g
 \<and> running (move_world dt g) = running g"
  using spawn_if_needed_frame
  by (simp add: move_world_def remove_offscreen_def scroll_world_def Let_def)

text \<open>The iteration never takes its \<^verbatim>\<open>except\<close> branch: the coin loop does not raise.\<close>

lemma tick_eq:
  "tick ms evs g =
     (if game_started (handle_events evs g) then
        fell_off_screen (obstacle_collision
          (snd (collect_coins (move_world (real ms / 1000) (handle_events evs g)))))
      else handle_events evs g)"
  by (simp add: tick_def tick_body_def collect_coins_eq Let_def)

section \<open>A run into an obstacle\<close>

lemma init_game_sample: "init_game sample_rng = frame_0"
  by (simp add: init_game_def do_reset_def reset_game_unfold Player_def spawn_defs config_defs
        frame_defs)

lemma tick_1: "tick 100 [KEYDOWN_SPACE] frame_0 = frame_1"
  by (simp add: frame_defs tick_defs rect_defs config_defs)

lemma tick_2: "tick 100 [] frame_1 = frame_2"
  by (simp add: frame_defs tick_defs rect_defs config_defs)

lemma tick_3: "tick 100 [] frame_2 = frame_3"
  by (simp add: frame_defs tick_defs rect_defs config_defs)

lemma tick_4: "tick 100 [KEYDOWN_SPACE] frame_3 = frame_4"
  by (simp add: frame_defs tick_defs rect_defs config_defs)

lemma tick_5: "tick 100 [] frame_4 = frame_5"
  by (simp add: frame_defs tick_defs rect_defs config_defs)

lemma tick_6: "tick 100 [] frame_5 = frame_6"
  by (simp add: frame_defs tick_defs rect_defs config_defs)

lemma tick_7: "tick 100 [] frame_6 = frame_7"
proof -
  have "spawn_platform
          (frame_6\<lparr>platforms := [Rect 115 420 150 10, Rect 445 370 150 10],
                   obstacles := [Rect 467 340 30 30], coins := [Rect 469 320 20 20],
                   last_platform_x := 775,
                   player := player_on_roof\<lparr>rect := Rect 385 370 30 50, y_velocity := 36 / 5,
                                             is_grounded := False, jump_count := 1\<rparr>\<rparr>) 370 775
        = ((1105, 325), frame_7\<lparr>last_platform_x := 775, last_platform_y := 370\<rparr>)"
    by (simp add: frame_defs spawn_defs config_defs)
  then show ?thesis
    by (simp add: frame_defs tick_defs rect_defs config_defs)
qed

lemma tick_8: "tick 100 [KEYDOWN_SPACE] frame_7 = frame_8"
  by (simp add: frame_defs tick_defs rect_defs config_defs)

lemma frames_running:
  "running frame_0 \<and> running frame_1 \<and> running frame_2 \<and> running frame_3 \<and> running frame_4
 \<and> running frame_5 \<and> running frame_6 \<and> running frame_7"
  by (simp add: frame_defs)

lemma run_hit_frames: "run hit_frames (init_game sample_rng) = frame_8"
  by (simp add: init_game_sample hit_frames_def frames_running
        tick_1 tick_2 tick_3 tick_4 tick_5 tick_6 tick_7 tick_8)

lemma move_9: "move_world (1 / 10) frame_8 = frame_9_moved"
  by (simp add: frame_defs tick_defs rect_defs config_defs)

lemma coins_9: "collect_coins frame_9_moved = (None, frame_9_at_obstacle)"
  by (simp add: frame_defs tick_defs rect_defs config_defs)

lemma reset_9: "do_reset frame_9_at_obstacle = frame_9"
  by (simp add: do_reset_def reset_game_unfold spawn_defs config_defs frame_defs)

lemma hit_9:
  "Rect 407 340 30 30 \<in> set (obstacles frame_9_at_obstacle)
 \<and> colliderect (rect (player frame_9_at_obstacle)) (Rect 407 340 30 30)"
  by (simp add: frame_defs colliderect_def)

lemma tick_9: "tick 100 [] frame_8 = frame_9"
proof -
  have "game_started (handle_events [] frame_8)"
    by (simp add: handle_events_def frame_defs)
  moreover have "obstacle_collision frame_9_at_obstacle = frame_9"
    using reset_9 by (simp add: obstacle_collision_def frame_defs colliderect_def)
  moreover have "fell_off_screen frame_9 = frame_9"
    by (simp add: fell_off_screen_def frame_defs rect_defs config_defs)
  ultimately show ?thesis
    using move_9 coins_9 by (simp add: tick_def tick_body_def handle_events_def)
qed

section \<open>The space key\<close>

text \<open>
  C10. In the event loop, a press of the space key while the game has not started changes
  the started flag, to true, and nothing else of the state: the player, the score, the
  frontier and the three lists stay as they are. A press while the game has started and
  the jump count has reached \<open>max_jumps\<close> changes nothing at all. (The rest of the
  iteration then runs with the flag as the event loop left it.)
\<close>

theorem space_key_frame:
  "(\<not> game_started g \<longrightarrow> handle_event KEYDOWN_SPACE g = g\<lparr>game_started := True\<rparr>)
 \<and> (game_started g \<and> max_jumps (player g) \<le> jump_count (player g) \<longrightarrow>
      handle_event KEYDOWN_SPACE g = g)"
  by simp

theorem space_key_frame_witness:
  "\<not> game_started frame_0
 \<and> handle_event KEYDOWN_SPACE frame_0 = frame_0\<lparr>game_started := True\<rparr>
 \<and> game_started frame_8 \<and> max_jumps (player frame_8) \<le> jump_count (player frame_8)
 \<and> handle_event KEYDOWN_SPACE frame_8 = frame_8"
  using space_key_frame [of frame_0] space_key_frame [of frame_8]
  by (simp add: frame_defs)

section \<open>Landing\<close>

text \<open>
  C3. Let \<open>dy\<close> be the displacement that gravity and movement compute in an iteration,
  \<open>old_bottom\<close> the player's bottom edge before the move and \<open>p3\<close> the player after it.
  When \<open>dy\<close> is not positive, the landing check does not run and the player is \<open>p3\<close>.
  When it is positive, the first platform of the list that the moved rectangle overlaps
  and whose top is at or below \<open>old_bottom\<close> decides: the player's bottom is set to that
  platform's top, the velocity to 0, grounded to true and the jump count to 0, whatever
  platforms follow; when there is no such platform the player is \<open>p3\<close>, unchanged.
\<close>

theorem landing_resolution:
  assumes "integrate dt p = (p3, dy, old_bottom)"
  shows "old_bottom = rect_bottom (rect p)
       \<and> rect p3 = set_y (rect p) (rect_y (rect p) + py_int dy)
       \<and> (\<not> dy > 0 \<longrightarrow> physics dt p plats = p3)
       \<and> (dy > 0 \<longrightarrow>
            physics dt p plats =
              (case find (\<lambda>platform. colliderect (rect p3) platform
                                     \<and> old_bottom \<le> rect_top platform) plats of
                 None \<Rightarrow> p3
               | Some platform \<Rightarrow>
                   p3\<lparr>rect := set_bottom (rect p3) (rect_top platform),
                      y_velocity := 0, is_grounded := True, jump_count := 0\<rparr>))
       \<and> rect_bottom (set_bottom (rect p3) t) = t"
  using assms
  by (auto simp: physics_def integrate_def Let_def landing_check_find rect_defs)

theorem landing_resolution_witness:
  "integrate (1 / 10) player_on_roof
     = (player_on_roof\<lparr>rect := Rect 385 398 30 50, y_velocity := 24 / 5, is_grounded := False\<rparr>,
        144 / 5, 420)
 \<and> physics (1 / 10) player_on_roof [Rect 295 420 150 10, Rect 625 370 150 10] = player_on_roof
 \<and> physics (1 / 10) player_on_roof [Rect 625 370 150 10]
     = player_on_roof\<lparr>rect := Rect 385 398 30 50, y_velocity := 24 / 5, is_grounded := False\<rparr>
 \<and> integrate (1 / 10) (player_on_roof\<lparr>y_velocity := - 12, jump_count := 1\<rparr>)
     = (player_on_roof\<lparr>rect := Rect 385 327 30 50, y_velocity := - (36 / 5),
                        jump_count := 1, is_grounded := False\<rparr>,
        - (216 / 5), 420)
 \<and> physics (1 / 10) (player_on_roof\<lparr>y_velocity := - 12, jump_count := 1\<rparr>)
       [Rect 295 420 150 10, Rect 625 370 150 10]
     = player_on_roof\<lparr>rect := Rect 385 327 30 50, y_velocity := - (36 / 5),
                       jump_count := 1, is_grounded := False\<rparr>"
proof -
  have falling: "integrate (1 / 10) player_on_roof
     = (player_on_roof\<lparr>rect := Rect 385 398 30 50, y_velocity := 24 / 5, is_grounded := False\<rparr>,
        144 / 5, 420)"
    by (simp add: integrate_def player_on_roof_def py_int_def rect_defs config_defs)
  have rising: "integrate (1 / 10) (player_on_roof\<lparr>y_velocity := - 12, jump_count := 1\<rparr>)
     = (player_on_roof\<lparr>rect := Rect 385 327 30 50, y_velocity := - (36 / 5),
                        jump_count := 1, is_grounded := False\<rparr>,
        - (216 / 5), 420)"
    by (simp add: integrate_def player_on_roof_def py_int_def rect_defs config_defs)
  have lands: "physics (1 / 10) player_on_roof [Rect 295 420 150 10, Rect 625 370 150 10]
               = player_on_roof"
    using landing_resolution [OF falling, of "[Rect 295 420 150 10, Rect 625 370 150 10]"]
    by (simp add: player_on_roof_def colliderect_def rect_defs)
  have misses: "physics (1 / 10) player_on_roof [Rect 625 370 150 10]
     = player_on_roof\<lparr>rect := Rect 385 398 30 50, y_velocity := 24 / 5, is_grounded := False\<rparr>"
    using landing_resolution [OF falling, of "[Rect 625 370 150 10]"]
    by (simp add: player_on_roof_def colliderect_def rect_defs)
  have rises: "physics (1 / 10) (player_on_roof\<lparr>y_velocity := - 12, jump_count := 1\<rparr>)
       [Rect 295 420 150 10, Rect 625 370 150 10]
     = player_on_roof\<lparr>rect := Rect 385 327 30 50, y_velocity := - (36 / 5),
                       jump_count := 1, is_grounded := False\<rparr>"
    using landing_resolution [OF rising, of "[Rect 295 420 150 10, Rect 625 370 150 10]"]
    by simp
  from falling lands misses rising rises show ?thesis
    by (intro conjI)
qed

section \<open>Coins\<close>

text \<open>
  C5. The coin collection of an iteration does not raise; it leaves in the coin list
  exactly the coins that the player's rectangle does not overlap, in their order, and adds
  to the score the number of coins that it does overlap. A coin that the player overlaps
  is not in the list afterwards, and a second collection right after the first finds
  nothing: it changes neither the list nor the score.
\<close>

theorem coin_collection:
  assumes "collect_coins g = (e, g')"
  shows "e = None
       \<and> coins g' = [c \<leftarrow> coins g. \<not> colliderect (rect (player g)) c]
       \<and> score g' = score g + int (length [c \<leftarrow> coins g. colliderect (rect (player g)) c])
       \<and> (colliderect (rect (player g)) c \<longrightarrow> c \<notin> set (coins g'))
       \<and> collect_coins g' = (None, g')"
proof -
  from assms have g': "g' = g\<lparr>coins := [c \<leftarrow> coins g. \<not> colliderect (rect (player g)) c],
              score := score g + int (length [c \<leftarrow> coins g. colliderect (rect (player g)) c])\<rparr>"
    and e: "e = None"
    by (simp_all add: collect_coins_eq)
  have "[c \<leftarrow> coins g'. colliderect (rect (player g')) c] = []"
    by (simp add: g' filter_empty_conv)
  moreover have "[c \<leftarrow> coins g'. \<not> colliderect (rect (player g')) c] = coins g'"
    by (simp add: g')
  ultimately have "collect_coins g' = (None, g')"
    by (simp add: collect_coins_eq [of g'])
  with g' e show ?thesis by simp
qed

theorem coin_collection_witness:
  "collect_coins frame_9_moved = (None, frame_9_at_obstacle)
 \<and> coins frame_9_moved = [Rect 409 320 20 20, Rect 744 275 20 20]
 \<and> colliderect (rect (player frame_9_moved)) (Rect 409 320 20 20)
 \<and> coins frame_9_at_obstacle = [Rect 744 275 20 20]
 \<and> score frame_9_moved = 0 \<and> score frame_9_at_obstacle = 1
 \<and> Rect 409 320 20 20 \<notin> set (coins frame_9_at_obstacle)
 \<and> collect_coins frame_9_at_obstacle = (None, frame_9_at_obstacle)"
  using coin_collection [OF coins_9, of "Rect 409 320 20 20"] coins_9
  by (simp add: frame_defs colliderect_def)

section \<open>Pruning\<close>

text \<open>
  C7, as the claim states it, fails: an entity whose right edge is exactly at 0 has not
  passed the left screen edge in the claim's sense (its right edge is not below 0), and
  it is pruned.
\<close>

theorem prune_right_edge_zero:
  "rect_right (Rect (- 150) 370 150 10) = 0
 \<and> \<not> rect_right (Rect (- 150) 370 150 10) < 0
 \<and> prune [Rect (- 150) 370 150 10] = []"
  by (simp add: prune_def rect_defs)

text \<open>
  C7, amended. The pruning of an iteration removes from each of the three lists exactly
  the entities whose right edge is at or left of the left screen edge (right edge \<open>\<le> 0\<close>),
  and keeps the others in their order. An entity whose right edge is at \<open>-1\<close> is pruned;
  an entity of positive width whose left edge is at \<open>x = 0\<close> is retained.
\<close>

theorem prune_offscreen:
  "prune obj_list = [item \<leftarrow> obj_list. \<not> rect_right item \<le> 0]
 \<and> subseq (prune obj_list) obj_list
 \<and> (item \<in> set (prune obj_list) \<longleftrightarrow> item \<in> set obj_list \<and> \<not> rect_right item \<le> 0)
 \<and> (rect_right item = - 1 \<longrightarrow> item \<notin> set (prune obj_list))
 \<and> (item \<in> set obj_list \<and> rect_x item = 0 \<and> 0 < rect_width item \<longrightarrow>
      item \<in> set (prune obj_list))
 \<and> platforms (remove_offscreen g) = prune (platforms g)
 \<and> obstacles (remove_offscreen g) = prune (obstacles g)
 \<and> coins (remove_offscreen g) = prune (coins g)"
  by (auto simp: prune_def remove_offscreen_def rect_defs not_le)

theorem prune_offscreen_witness:
  "prune [Rect (- 151) 370 150 10, Rect 0 420 150 10, Rect (- 150) 370 150 10, Rect 7 340 30 30]
     = [Rect 0 420 150 10, Rect 7 340 30 30]
 \<and> rect_right (Rect (- 151) 370 150 10) = - 1
 \<and> Rect (- 151) 370 150 10 \<notin> set (prune [Rect (- 151) 370 150 10, Rect 0 420 150 10,
                                            Rect (- 150) 370 150 10, Rect 7 340 30 30])
 \<and> Rect 0 420 150 10 \<in> set (prune [Rect (- 151) 370 150 10, Rect 0 420 150 10,
                                     Rect (- 150) 370 150 10, Rect 7 340 30 30])"
  using prune_offscreen [of "[Rect (- 151) 370 150 10, Rect 0 420 150 10,
                              Rect (- 150) 370 150 10, Rect 7 340 30 30]"
                            "Rect (- 151) 370 150 10"]
        prune_offscreen [of "[Rect (- 151) 370 150 10, Rect 0 420 150 10,
                              Rect (- 150) 370 150 10, Rect 7 340 30 30]"
                            "Rect 0 420 150 10"]
  by (simp add: rect_defs)

section \<open>Hitting an obstacle\<close>

text \<open>
  C2, as the claim states it, fails on the number of platforms. In the run of
  \<open>hit_frames\<close> from the initial state, the game is started and the player, in the air
  after a second jump, overlaps the obstacle \<open>Rect 407 340 30 30\<close> at the obstacle check of
  the ninth frame; the reset leaves two platforms, the initial one and the one that
  \<^verbatim>\<open>reset_game\<close> spawns after it.
\<close>

theorem obstacle_hit_leaves_two_platforms:
  "run hit_frames (init_game sample_rng) = frame_8
 \<and> game_started (handle_events [] frame_8)
 \<and> snd (collect_coins (move_world (real 100 / 1000) (handle_events [] frame_8)))
     = frame_9_at_obstacle
 \<and> Rect 407 340 30 30 \<in> set (obstacles frame_9_at_obstacle)
 \<and> colliderect (rect (player frame_9_at_obstacle)) (Rect 407 340 30 30)
 \<and> platforms (tick 100 [] frame_8) = [Rect 325 420 150 10, Rect 655 380 150 10]
 \<and> length (platforms (tick 100 [] frame_8)) = 2"
  using run_hit_frames move_9 coins_9 hit_9 tick_9
  by (simp add: handle_events_def frame_9_def frame_8_def frame_7_def frame_6_def frame_5_def
        frame_4_def frame_3_def frame_2_def frame_1_def frame_0_def)

text \<open>
  C2, amended. Whenever the player's rectangle overlaps an obstacle at the obstacle check
  of an iteration in which the game is started, the iteration ends reset: the started flag
  is false, the score is 0, exactly two platforms are present (the initial platform at
  \<open>(325, 420)\<close> and the platform that \<^verbatim>\<open>reset_game\<close> spawns at \<open>x = 655\<close>), and the
  player is grounded on the first of them: bottom edge on its top, velocity 0, jump
  count 0.
\<close>

theorem obstacle_hit_resets:
  assumes playing: "game_started (handle_events evs g)"
    and before: "g2 = snd (collect_coins (move_world (real ms / 1000) (handle_events evs g)))"
    and obstacle: "obstacle \<in> set (obstacles g2)"
    and hit: "colliderect (rect (player g2)) obstacle"
  shows "\<not> game_started (tick ms evs g) \<and> score (tick ms evs g) = 0
       \<and> (\<exists>y. platforms (tick ms evs g) = [Rect 325 420 PLATFORM_WIDTH PLATFORM_HEIGHT,
                                            Rect 655 y PLATFORM_WIDTH PLATFORM_HEIGHT])
       \<and> length (platforms (tick ms evs g)) = 2
       \<and> rect_bottom (rect (player (tick ms evs g))) = rect_top (hd (platforms (tick ms evs g)))
       \<and> y_velocity (player (tick ms evs g)) = 0
       \<and> jump_count (player (tick ms evs g)) = 0
       \<and> is_grounded (player (tick ms evs g))"
proof -
  from obstacle hit have "obstacle_collision g2 = do_reset g2"
    by (auto simp: obstacle_collision_def obstacle_loop_eq)
  with playing before have t: "tick ms evs g = fell_off_screen (do_reset g2)"
    by (simp add: tick_eq)
  from fell_off_screen_cases [of "do_reset g2"] show ?thesis
  proof
    assume "fell_off_screen (do_reset g2) = do_reset g2"
    with t do_reset_grounded [of g2] show ?thesis by auto
  next
    assume "fell_off_screen (do_reset g2) = do_reset (do_reset g2)"
    with t do_reset_grounded [of "do_reset g2"] show ?thesis by auto
  qed
qed

theorem obstacle_hit_resets_witness:
  "game_started (handle_events [] frame_8)
 \<and> frame_9_at_obstacle
     = snd (collect_coins (move_world (real 100 / 1000) (handle_events [] frame_8)))
 \<and> Rect 407 340 30 30 \<in> set (obstacles frame_9_at_obstacle)
 \<and> colliderect (rect (player frame_9_at_obstacle)) (Rect 407 340 30 30)
 \<and> tick 100 [] frame_8 = frame_9
 \<and> \<not> game_started frame_9 \<and> score frame_9 = 0
 \<and> platforms frame_9 = [Rect 325 420 PLATFORM_WIDTH PLATFORM_HEIGHT,
                        Rect 655 380 PLATFORM_WIDTH PLATFORM_HEIGHT]
 \<and> rect_bottom (rect (player frame_9)) = rect_top (hd (platforms frame_9))
 \<and> y_velocity (player frame_9) = 0 \<and> jump_count (player frame_9) = 0
 \<and> is_grounded (player frame_9)"
proof -
  have playing: "game_started (handle_events [] frame_8)"
    by (simp add: handle_events_def frame_defs)
  have before: "frame_9_at_obstacle
     = snd (collect_coins (move_world (real 100 / 1000) (handle_events [] frame_8)))"
    using move_9 coins_9 by (simp add: handle_events_def)
  note hit = hit_9 [THEN conjunct1] hit_9 [THEN conjunct2]
  have after: "platforms frame_9 = [Rect 325 420 PLATFORM_WIDTH PLATFORM_HEIGHT,
                                    Rect 655 380 PLATFORM_WIDTH PLATFORM_HEIGHT]"
    by (simp add: frame_9_def config_defs)
  from obstacle_hit_resets [OF playing before hit] playing before hit tick_9 after
  show ?thesis by simp
qed

section \<open>The jump count\<close>

lemma handle_event_jump_count:
  "max_jumps (player (handle_event ev g)) = max_jumps (player g)
 \<and> (jump_count (player (handle_event ev g)) = jump_count (player g)
    \<or> ev = KEYDOWN_SPACE \<and> game_started g \<and> jump_count (player g) < max_jumps (player g)
      \<and> player (handle_event ev g)
          = (player g)\<lparr>y_velocity := jump_power (player g),
                        jump_count := jump_count (player g) + 1, is_grounded := False\<rparr>)"
  by (cases ev) auto

lemma handle_event_bounds:
  assumes "0 \<le> jump_count (player g) \<and> jump_count (player g) \<le> max_jumps (player g)"
  shows "0 \<le> jump_count (player (handle_event ev g))
       \<and> jump_count (player (handle_event ev g)) \<le> max_jumps (player (handle_event ev g))"
  using handle_event_jump_count [of ev g] assms by auto

lemma handle_events_bounds:
  assumes "0 \<le> jump_count (player g) \<and> jump_count (player g) \<le> max_jumps (player g)"
  shows "0 \<le> jump_count (player (handle_events evs g))
       \<and> jump_count (player (handle_events evs g)) \<le> max_jumps (player (handle_events evs g))"
  using assms unfolding handle_events_def
proof (induction evs arbitrary: g)
  case Nil
  then show ?case by simp
next
  case (Cons ev evs)
  from Cons.IH [OF handle_event_bounds [OF Cons.prems, of ev]] show ?case by simp
qed

lemma physics_jump_count:
  "max_jumps (physics dt p plats) = max_jumps p
 \<and> (jump_count (physics dt p plats) = jump_count p \<and> \<not> is_grounded (physics dt p plats)
    \<or> jump_count (physics dt p plats) = 0 \<and> is_grounded (physics dt p plats))"
  by (auto simp: physics_def integrate_def Let_def landing_check_find split: option.splits)

text \<open>
  After the events, the rest of an iteration leaves the jump count as it is or sets it to
  0, and then the player has landed in this iteration or the game has been reset.
\<close>

lemma tick_jump_count:
  "max_jumps (player (tick ms evs g)) = max_jumps (player (handle_events evs g))
 \<and> (jump_count (player (tick ms evs g)) = jump_count (player (handle_events evs g))
    \<or> jump_count (player (tick ms evs g)) = 0
      \<and> game_started (handle_events evs g)
      \<and> (is_grounded (physics (real ms / 1000) (player (handle_events evs g))
                                (platforms (handle_events evs g)))
         \<or> \<not> game_started (tick ms evs g)))"
proof (cases "game_started (handle_events evs g)")
  case False
  then show ?thesis by (simp add: tick_eq)
next
  case True
  let ?g1 = "handle_events evs g"
  let ?g2 = "snd (collect_coins (move_world (real ms / 1000) ?g1))"
  have p2: "player ?g2 = physics (real ms / 1000) (player ?g1) (platforms ?g1)"
    and s2: "game_started ?g2"
    using True move_world_frame [of "real ms / 1000" ?g1] by (simp_all add: collect_coins_eq)
  note ph = physics_jump_count [of "real ms / 1000" "player ?g1" "platforms ?g1"]
  have t: "tick ms evs g = fell_off_screen (obstacle_collision ?g2)"
    using True by (simp add: tick_eq)
  consider "tick ms evs g = ?g2"
    | x where "tick ms evs g = do_reset x" "max_jumps (player x) = max_jumps (player ?g2)"
    using t fell_off_screen_cases [of "obstacle_collision ?g2"] obstacle_collision_cases [of ?g2]
      do_reset_grounded [of ?g2]
    by metis
  then show ?thesis
  proof cases
    case 1
    with p2 ph True show ?thesis by auto
  next
    case 2
    with do_reset_grounded [of x] p2 ph True show ?thesis by auto
  qed
qed

lemma tick_bounds:
  assumes "0 \<le> jump_count (player g) \<and> jump_count (player g) \<le> max_jumps (player g)"
  shows "0 \<le> jump_count (player (tick ms evs g))
       \<and> jump_count (player (tick ms evs g)) \<le> max_jumps (player (tick ms evs g))"
  using tick_jump_count [of ms evs g] handle_events_bounds [OF assms, of evs]
  by auto

lemma run_bounds:
  assumes "0 \<le> jump_count (player g) \<and> jump_count (player g) \<le> max_jumps (player g)"
  shows "0 \<le> jump_count (player (run frames g))
       \<and> jump_count (player (run frames g)) \<le> max_jumps (player (run frames g))"
  using assms
proof (induction frames g rule: run.induct)
  case (1 g)
  then show ?case by simp
next
  case (2 ms evs frames g)
  show ?case
  proof (cases "running g")
    case True
    from "2.IH" [OF True tick_bounds [OF "2.prems"]] True show ?thesis by simp
  next
    case False
    with "2.prems" show ?thesis by simp
  qed
qed

lemma init_game_bounds:
  "jump_count (player (init_game g0)) = 0 \<and> max_jumps (player (init_game g0)) = MAX_JUMPS"
  using do_reset_grounded
  by (simp add: init_game_def Player_def)

text \<open>
  C4, as the claim states it, fails on its last part: landing is not the only operation
  that sets the jump count to 0. In the ninth frame of the run of \<open>hit_frames\<close> the player
  has jumped twice and does not land (after gravity, movement and the landing check the
  player is not grounded), and the iteration ends with the jump count at 0, set by
  \<^verbatim>\<open>reset_game\<close>.
\<close>

theorem jump_count_reset_without_landing:
  "run hit_frames (init_game sample_rng) = frame_8
 \<and> jump_count (player (handle_events [] frame_8)) = 2
 \<and> \<not> is_grounded (physics (real 100 / 1000) (player (handle_events [] frame_8))
                            (platforms (handle_events [] frame_8)))
 \<and> jump_count (player (tick 100 [] frame_8)) = 0"
proof -
  have "physics (1 / 10) (player frame_8) (platforms frame_8) = player frame_9_moved"
    using move_world_frame [of "1 / 10" frame_8] move_9 by simp
  then show ?thesis
    using run_hit_frames tick_9
    by (simp add: handle_events_def frame_defs)
qed

text \<open>
  C4, amended. In every state that the main loop reaches from its initial state, the jump
  count is in \<open>[0, max_jumps]\<close>. An event changes the jump count only when it is a press of
  the space key while the game is started and the jump count is below \<open>max_jumps\<close>; that
  accepted jump sets the velocity to the jump impulse, adds exactly 1 to the jump count
  and clears the grounded flag. After the events, an iteration leaves the jump count as it
  is or sets it to 0, and it sets it to 0 only when the player lands on a platform in that
  iteration or the game is reset by \<^verbatim>\<open>reset_game\<close> (after an obstacle hit or a fall off
  the screen).
\<close>

theorem jump_count_bounds:
  "0 \<le> jump_count (player (run frames (init_game g0)))
 \<and> jump_count (player (run frames (init_game g0)))
     \<le> max_jumps (player (run frames (init_game g0)))
 \<and> (jump_count (player (handle_event ev g)) \<noteq> jump_count (player g) \<longrightarrow>
      ev = KEYDOWN_SPACE \<and> game_started g \<and> jump_count (player g) < max_jumps (player g))
 \<and> (ev = KEYDOWN_SPACE \<and> game_started g \<and> jump_count (player g) < max_jumps (player g) \<longrightarrow>
      player (handle_event ev g)
        = (player g)\<lparr>y_velocity := jump_power (player g),
                      jump_count := jump_count (player g) + 1, is_grounded := False\<rparr>)
 \<and> (jump_count (player (tick ms evs g)) \<noteq> jump_count (player (handle_events evs g)) \<longrightarrow>
      jump_count (player (tick ms evs g)) = 0
      \<and> game_started (handle_events evs g)
      \<and> (is_grounded (physics (real ms / 1000) (player (handle_events evs g))
                                (platforms (handle_events evs g)))
         \<or> \<not> game_started (tick ms evs g)))"
proof -
  have "0 \<le> jump_count (player (init_game g0))
      \<and> jump_count (player (init_game g0)) \<le> max_jumps (player (init_game g0))"
    using init_game_bounds [of g0] by (simp add: config_defs)
  from run_bounds [OF this, of frames]
  have "0 \<le> jump_count (player (run frames (init_game g0)))
      \<and> jump_count (player (run frames (init_game g0)))
          \<le> max_jumps (player (run frames (init_game g0)))" .
  moreover from handle_event_jump_count [of ev g]
  have "jump_count (player (handle_event ev g)) \<noteq> jump_count (player g) \<longrightarrow>
      ev = KEYDOWN_SPACE \<and> game_started g \<and> jump_count (player g) < max_jumps (player g)"
    by blast
  moreover have "ev = KEYDOWN_SPACE \<and> game_started g
        \<and> jump_count (player g) < max_jumps (player g) \<longrightarrow>
      player (handle_event ev g)
        = (player g)\<lparr>y_velocity := jump_power (player g),
                      jump_count := jump_count (player g) + 1, is_grounded := False\<rparr>"
    by simp
  moreover from tick_jump_count [of ms evs g]
  have "jump_count (player (tick ms evs g)) \<noteq> jump_count (player (handle_events evs g)) \<longrightarrow>
      jump_count (player (tick ms evs g)) = 0
      \<and> game_started (handle_events evs g)
      \<and> (is_grounded (physics (real ms / 1000) (player (handle_events evs g))
                                (platforms (handle_events evs g)))
         \<or> \<not> game_started (tick ms evs g))"
    by blast
  ultimately show ?thesis by blast
qed

theorem jump_count_bounds_witness:
  "run hit_frames (init_game sample_rng) = frame_8
 \<and> 0 \<le> jump_count (player frame_8) \<and> jump_count (player frame_8) \<le> max_jumps (player frame_8)
 \<and> jump_count (player (handle_event KEYDOWN_SPACE frame_3)) \<noteq> jump_count (player frame_3)
 \<and> game_started frame_3 \<and> jump_count (player frame_3) < max_jumps (player frame_3)
 \<and> player (handle_event KEYDOWN_SPACE frame_3)
     = (player frame_3)\<lparr>y_velocity := jump_power (player frame_3),
                         jump_count := jump_count (player frame_3) + 1, is_grounded := False\<rparr>
 \<and> jump_count (player (tick 100 [] frame_8)) \<noteq> jump_count (player (handle_events [] frame_8))
 \<and> jump_count (player (tick 100 [] frame_8)) = 0
 \<and> game_started (handle_events [] frame_8)
 \<and> \<not> game_started (tick 100 [] frame_8)"
  using jump_count_bounds [of hit_frames sample_rng KEYDOWN_SPACE frame_3 100 "[]"]
    jump_count_bounds [of hit_frames sample_rng KEYDOWN_SPACE frame_8 100 "[]"]
    run_hit_frames tick_9
  by (simp add: handle_events_def frame_defs)

end
